theory Spec2Isabelle
  imports Complex_Main
begin

section \<open>Data model (types.ts)\<close>

text \<open>
  JavaScript numbers that hold prices and quantities are modelled as \<open>int\<close>: the
  catalog prices are produced by \<open>Math.floor\<close>, and the model covers the quantities
  that are whole numbers.  Record fields carry a short prefix
  because the source uses \<open>id\<close>, \<open>name\<close> and \<open>quantity\<close> in several interfaces.
\<close>

record product =
  p_id :: string
  p_name :: string
  p_category :: string
  p_price :: int
  p_image :: string
  p_inStock :: bool
  p_rating :: real
  p_reviewCount :: nat

record cart_item =
  product :: product
  quantity :: int

record order_item =
  productId :: string
  oi_quantity :: int

datatype order_status = Delivered | Processing | Shipped | Returned

record order =
  o_id :: string
  o_date :: string
  o_status :: order_status
  o_items :: "order_item list"
  o_total :: int

datatype user_role = RoleCustomer | RoleAdmin

record customer =
  c_id :: string
  c_name :: string
  c_email :: string
  c_role :: user_role
  orders :: "order list"

section \<open>Strings\<close>

text \<open>
  \<open>String.prototype.toLowerCase\<close> on the ASCII letters (the catalog and the tool
  arguments the program compares are ASCII), \<open>String.prototype.includes\<close>, and the
  decimal rendering of a number inside a template string.
\<close>

definition toLowerChar :: "char \<Rightarrow> char" where
  "toLowerChar c =
     (case map_of (zip ''ABCDEFGHIJKLMNOPQRSTUVWXYZ'' ''abcdefghijklmnopqrstuvwxyz'') c of
        Some l \<Rightarrow> l
      | None \<Rightarrow> c)"

definition toLowerCase :: "string \<Rightarrow> string" where
  "toLowerCase s = map toLowerChar s"

fun startsWith :: "string \<Rightarrow> string \<Rightarrow> bool" where
  "startsWith s [] = True"
| "startsWith [] (c # cs) = False"
| "startsWith (x # xs) (c # cs) = (x = c \<and> startsWith xs cs)"

fun includes_str :: "string \<Rightarrow> string \<Rightarrow> bool" where
  "includes_str [] t = (t = [])"
| "includes_str (x # xs) t = (startsWith (x # xs) t \<or> includes_str xs t)"

function showNat :: "nat \<Rightarrow> string" where
  "showNat n =
     (if n < 10 then [''0123456789'' ! n]
      else showNat (n div 10) @ [''0123456789'' ! (n mod 10)])"
  by pat_completeness auto
termination
  by (relation "measure id") auto

declare showNat.simps [simp del]

definition showInt :: "int \<Rightarrow> string" where
  "showInt i = (if i < 0 then ''-'' @ showNat (nat (- i)) else showNat (nat i))"

section \<open>Catalog queries (data/mockData.ts)\<close>

text \<open>
  \<open>PRODUCTS\<close> is a module constant whose prices, stock flags and ratings are drawn with
  \<open>Math.random\<close> when the module is loaded; the functions below take it as a parameter.
  An optional argument of the source (\<open>query?: string\<close>) is a \<open>string option\<close>;
  the test \<open>if (category)\<close> is false for \<open>undefined\<close> and for the empty string.
\<close>

definition searchProducts :: "product list \<Rightarrow> string option \<Rightarrow> string option \<Rightarrow> product list" where
  "searchProducts PRODUCTS query category =
     (let results = PRODUCTS;
          results =
            (case category of
               None \<Rightarrow> results
             | Some cat \<Rightarrow>
                 if cat = [] then results
                 else
                   (let lowerCat = toLowerCase cat in
                    if lowerCat \<noteq> ''apparel'' \<and> lowerCat \<noteq> ''clothing'' \<and> lowerCat \<noteq> ''apparels''
                    then filter (\<lambda>p. includes_str (toLowerCase (p_category p)) lowerCat) results
                    else results));
          results =
            (case query of
               None \<Rightarrow> results
             | Some q \<Rightarrow>
                 if q = [] then results
                 else
                   (let lowerQuery = toLowerCase q in
                    filter (\<lambda>p. includes_str (toLowerCase (p_name p)) lowerQuery) results))
      in take 5 results)"

text \<open>The reduction of \<open>calcTotal\<close>: an item whose product is not in the catalog adds 0.\<close>

definition calcTotal :: "product list \<Rightarrow> order_item list \<Rightarrow> int" where
  "calcTotal PRODUCTS its =
     foldl (\<lambda>acc item.
              acc + (case find (\<lambda>p. p_id p = productId item) PRODUCTS of
                       Some p \<Rightarrow> p_price p * oi_quantity item
                     | None \<Rightarrow> 0))
           0 its"

subsection \<open>The search contract in the words of the specification\<close>

text \<open>
  A category is generic when, ignoring case, it is one of the umbrella terms; a generic
  (or absent) category does not filter.  Any other category keeps the products whose
  category contains it, ignoring case; a query keeps the products whose name contains
  it, ignoring case.  The result is the first five matches in catalog order.
\<close>

definition genericCategory :: "string \<Rightarrow> bool" where
  "genericCategory cat = (toLowerCase cat \<in> set [''apparel'', ''clothing'', ''apparels''])"

definition categoryMatches :: "string option \<Rightarrow> product \<Rightarrow> bool" where
  "categoryMatches category p =
     (case category of
        None \<Rightarrow> True
      | Some cat \<Rightarrow>
          (if genericCategory cat then True
           else includes_str (toLowerCase (p_category p)) (toLowerCase cat)))"

definition queryMatches :: "string option \<Rightarrow> product \<Rightarrow> bool" where
  "queryMatches query p =
     (case query of
        None \<Rightarrow> True
      | Some q \<Rightarrow> includes_str (toLowerCase (p_name p)) (toLowerCase q))"

definition search_spec :: "product list \<Rightarrow> string option \<Rightarrow> string option \<Rightarrow> product list" where
  "search_spec PRODUCTS query category =
     take 5 (filter (\<lambda>p. categoryMatches category p \<and> queryMatches query p) PRODUCTS)"

subsection \<open>A small catalog\<close>

text \<open>
  The first three entries that \<open>generateProducts\<close> builds (ids \<open>P1000\<close>..\<open>P1002\<close>,
  names from the adjective, colour and category tables), with one possible outcome of
  the random fields.
\<close>

definition tshirt :: product where
  "tshirt = \<lparr>p_id = ''P1000'', p_name = ''Vintage Red T-Shirt'', p_category = ''T-Shirt'',
     p_price = 20, p_image = ''https://placehold.co/300x300/e2e8f0/1e293b?text=T-Shirt'',
     p_inStock = True, p_rating = 4.5, p_reviewCount = 120\<rparr>"

definition jeans :: product where
  "jeans = \<lparr>p_id = ''P1001'', p_name = ''Modern Blue Jeans'', p_category = ''Jeans'',
     p_price = 50, p_image = ''https://placehold.co/300x300/e2e8f0/1e293b?text=Jeans'',
     p_inStock = True, p_rating = 4.1, p_reviewCount = 37\<rparr>"

definition jacket :: product where
  "jacket = \<lparr>p_id = ''P1002'', p_name = ''Classic Black Jacket'', p_category = ''Jacket'',
     p_price = 99, p_image = ''https://placehold.co/300x300/e2e8f0/1e293b?text=Jacket'',
     p_inStock = False, p_rating = 3.8, p_reviewCount = 402\<rparr>"

definition demoCatalog :: "product list" where
  "demoCatalog = [tshirt, jeans, jacket]"

section \<open>Application state (App.tsx)\<close>

text \<open>
  The component state of \<open>App\<close> (\<open>cart\<close>, \<open>currentUser\<close>, \<open>isCartOpen\<close>) is React
  state: a handler does not assign it, it calls a setter, and the new value exists from
  the next render on.  The model keeps the values of the last render in the record and
  the setter calls made since then in \<open>pending\<close>; \<open>render\<close> applies them in order.
  A functional setter call \<open>setCart(prev => ...)\<close> is \<open>SetCartBy\<close>, a setter call with
  a value is \<open>SetCartTo\<close>.

  Customer objects live in an explicit store, because \<open>currentUser\<close> starts as the very
  object \<open>CUSTOMERS[0]\<close>, the user switcher stores elements of \<open>CUSTOMERS\<close> in it, and
  \<open>handleCheckout\<close> assigns the \<open>orders\<close> property of an element of \<open>CUSTOMERS\<close> in
  place.  \<open>CUSTOMERS\<close> is the module-level array of references.

  \<open>entropy w k\<close> is the integer that the \<open>k\<close>-th evaluation of an expression
  \<open>Math.floor(Math.random() * n)\<close> yields, \<open>drawn\<close> counts the evaluations so far, and
  \<open>today\<close> is the value of \<open>new Date().toISOString().split('T')[0]\<close>.
\<close>

type_synonym ref = nat

datatype update =
    SetCartTo "cart_item list"
  | SetCartBy "cart_item list \<Rightarrow> cart_item list"
  | SetCurrentUser ref
  | SetIsCartOpen bool

record world =
  heap :: "ref \<Rightarrow> customer"
  nextRef :: ref
  CUSTOMERS :: "ref list"
  cart :: "cart_item list"
  currentUser :: ref
  isCartOpen :: bool
  pending :: "update list"
  entropy :: "nat \<Rightarrow> nat"
  drawn :: nat
  today :: string

definition enqueue :: "update list \<Rightarrow> world \<Rightarrow> world" where
  "enqueue us w = w\<lparr>pending := pending w @ us\<rparr>"

fun applyUpdate :: "update \<Rightarrow> world \<Rightarrow> world" where
  "applyUpdate (SetCartTo c) w = w\<lparr>cart := c\<rparr>"
| "applyUpdate (SetCartBy f) w = w\<lparr>cart := f (cart w)\<rparr>"
| "applyUpdate (SetCurrentUser u) w = w\<lparr>currentUser := u\<rparr>"
| "applyUpdate (SetIsCartOpen b) w = w\<lparr>isCartOpen := b\<rparr>"

definition render :: "world \<Rightarrow> world" where
  "render w = (foldl (\<lambda>s u. applyUpdate u s) w (pending w))\<lparr>pending := []\<rparr>"

definition draw :: "world \<Rightarrow> nat \<times> world" where
  "draw w = (entropy w (drawn w), w\<lparr>drawn := Suc (drawn w)\<rparr>)"

text \<open>The function passed to \<open>setCart\<close> by \<open>addToCart\<close>.\<close>

definition addToCart_updater :: "product \<Rightarrow> int \<Rightarrow> cart_item list \<Rightarrow> cart_item list" where
  "addToCart_updater p q prev =
     (case find (\<lambda>item. p_id (product item) = p_id p) prev of
        Some existing \<Rightarrow>
          map (\<lambda>item. if p_id (product item) = p_id p
                       then item\<lparr>quantity := quantity item + q\<rparr>
                       else item) prev
      | None \<Rightarrow> prev @ [\<lparr>product = p, quantity = q\<rparr>])"

definition addToCart :: "product \<Rightarrow> int \<Rightarrow> world \<Rightarrow> world" where
  "addToCart p q w = enqueue [SetCartBy (addToCart_updater p q), SetIsCartOpen True] w"

definition updateCartItemQuantity :: "string \<Rightarrow> int \<Rightarrow> world \<Rightarrow> world" where
  "updateCartItemQuantity pid newQuantity w =
     (if newQuantity < 1 then w
      else enqueue
             [SetCartBy (map (\<lambda>item. if p_id (product item) = pid
                                      then item\<lparr>quantity := newQuantity\<rparr>
                                      else item))] w)"

definition removeFromCart :: "string \<Rightarrow> world \<Rightarrow> world" where
  "removeFromCart pid w =
     enqueue [SetCartBy (filter (\<lambda>item. p_id (product item) \<noteq> pid))] w"

definition clearCart :: "world \<Rightarrow> world" where
  "clearCart w = enqueue [SetCartTo []] w"

text \<open>
  \<open>handleCheckout\<close> reads \<open>cart\<close> and \<open>currentUser\<close> of the render it was created in,
  allocates \<open>updatedUser\<close>, queues \<open>setCurrentUser(updatedUser)\<close>, assigns the
  \<open>orders\<close> of the element of \<open>CUSTOMERS\<close> that \<open>findIndex\<close> returns (at once, it is
  not React state), queues \<open>setCart([])\<close> and returns the order id.
\<close>

definition handleCheckout :: "world \<Rightarrow> string \<times> world" where
  "handleCheckout w0 =
     (let (r, w1) = draw w0;
          orderId = ''ORD-'' @ showNat r;
          newOrder =
            \<lparr>o_id = orderId, o_date = today w1, o_status = Processing,
             o_items = map (\<lambda>item. \<lparr>productId = p_id (product item),
                                      oi_quantity = quantity item\<rparr>) (cart w1),
             o_total = foldl (\<lambda>sum item. sum + p_price (product item) * quantity item)
                         0 (cart w1)\<rparr>;
          user = heap w1 (currentUser w1);
          updatedUser = user\<lparr>orders := newOrder # orders user\<rparr>;
          a = nextRef w1;
          w2 = enqueue [SetCurrentUser a]
                 (w1\<lparr>heap := (heap w1)(a := updatedUser), nextRef := Suc a\<rparr>);
          w3 = (case find (\<lambda>c. c_id (heap w2 c) = c_id (heap w2 (currentUser w2)))
                       (CUSTOMERS w2) of
                  Some c \<Rightarrow>
                    w2\<lparr>heap := (heap w2)
                           (c := (heap w2 c)\<lparr>orders := newOrder # orders (heap w2 c)\<rparr>)\<rparr>
                | None \<Rightarrow> w2)
      in (orderId, enqueue [SetCartTo []] w3))"

text \<open>
  The order of the specification for a checkout in the state \<open>w\<close>: the generated id,
  the creation date, the status Processing, the pairs of product id and quantity of the
  cart, and the sum of price times quantity over the cart.
\<close>

definition order_spec :: "world \<Rightarrow> order" where
  "order_spec w =
     \<lparr>o_id = ''ORD-'' @ showNat (entropy w (drawn w)), o_date = today w,
      o_status = Processing,
      o_items = map (\<lambda>item. \<lparr>productId = p_id (product item),
                               oi_quantity = quantity item\<rparr>) (cart w),
      o_total = sum_list (map (\<lambda>item. p_price (product item) * quantity item) (cart w))\<rparr>"

text \<open>The \<open>onChange\<close> handler of the user switcher.\<close>

definition switchUser :: "string \<Rightarrow> world \<Rightarrow> world" where
  "switchUser v w =
     (case find (\<lambda>c. c_id (heap w c) = v) (CUSTOMERS w) of
        Some user \<Rightarrow> enqueue [SetCurrentUser user] w
      | None \<Rightarrow> w)"

text \<open>\<open>getCustomerOrders\<close> of data/mockData.ts, reading the store.\<close>

definition getCustomerOrders :: "world \<Rightarrow> string \<Rightarrow> order list" where
  "getCustomerOrders w customerId =
     (case find (\<lambda>c. c_id (heap w c) = customerId) (CUSTOMERS w) of
        Some c \<Rightarrow> orders (heap w c)
      | None \<Rightarrow> [])"

subsection \<open>The initial state\<close>

text \<open>
  The literal \<open>CUSTOMERS\<close> of data/mockData.ts.  The items of the five seeded orders
  come from \<open>getRandomProducts\<close>; \<open>seed k\<close> is the result of its \<open>k\<close>-th call.  The
  totals are those that the \<open>forEach\<close> after the literal computes with \<open>calcTotal\<close>.
\<close>

definition seededOrder ::
  "product list \<Rightarrow> string \<Rightarrow> string \<Rightarrow> order_status \<Rightarrow> order_item list \<Rightarrow> order" where
  "seededOrder PRODUCTS oid d st its =
     \<lparr>o_id = oid, o_date = d, o_status = st, o_items = its,
      o_total = calcTotal PRODUCTS its\<rparr>"

definition mockCustomers :: "product list \<Rightarrow> (nat \<Rightarrow> order_item list) \<Rightarrow> customer list" where
  "mockCustomers PRODUCTS seed =
     [\<lparr>c_id = ''ADMIN'', c_name = ''System Admin'', c_email = ''admin@technova.com'',
       c_role = RoleAdmin, orders = []\<rparr>,
      \<lparr>c_id = ''C1'', c_name = ''Alice Johnson'', c_email = ''alice@example.com'',
       c_role = RoleCustomer,
       orders = [seededOrder PRODUCTS ''ORD-7782'' ''2023-10-15'' Delivered (seed 0),
                 seededOrder PRODUCTS ''ORD-9921'' ''2023-11-02'' Processing (seed 1)]\<rparr>,
      \<lparr>c_id = ''C2'', c_name = ''Bob Smith'', c_email = ''bob@example.com'',
       c_role = RoleCustomer, orders = []\<rparr>,
      \<lparr>c_id = ''C3'', c_name = ''Charlie Davis'', c_email = ''charlie@example.com'',
       c_role = RoleCustomer,
       orders = [seededOrder PRODUCTS ''ORD-1102'' ''2023-09-10'' Returned (seed 2),
                 seededOrder PRODUCTS ''ORD-2231'' ''2023-10-01'' Delivered (seed 3),
                 seededOrder PRODUCTS ''ORD-3341'' ''2023-11-05'' Shipped (seed 4)]\<rparr>]"

text \<open>
  The four customer objects are stored at the references 0 to 3; the cells that are
  not allocated yet hold a blank object.  \<open>currentUser\<close> starts as \<open>CUSTOMERS[0]\<close>.
\<close>

definition blankCustomer :: customer where
  "blankCustomer = \<lparr>c_id = [], c_name = [], c_email = [], c_role = RoleCustomer, orders = []\<rparr>"

fun storeAll :: "ref \<Rightarrow> customer list \<Rightarrow> (ref \<Rightarrow> customer) \<Rightarrow> (ref \<Rightarrow> customer)" where
  "storeAll a [] h = h"
| "storeAll a (c # cs) h = storeAll (Suc a) cs (h(a := c))"

definition initialWorld ::
  "product list \<Rightarrow> (nat \<Rightarrow> order_item list) \<Rightarrow> (nat \<Rightarrow> nat) \<Rightarrow> string \<Rightarrow> world" where
  "initialWorld PRODUCTS seed rnd day =
     \<lparr>heap = storeAll 0 (mockCustomers PRODUCTS seed) (\<lambda>_. blankCustomer),
      nextRef = 4, CUSTOMERS = [0, 1, 2, 3], cart = [], currentUser = 0,
      isCartOpen = False, pending = [], entropy = rnd, drawn = 0, today = day\<rparr>"

text \<open>
  A store is well formed for a session when every reference in use is allocated and the
  active customer is one of the customers of \<open>CUSTOMERS\<close>.
\<close>

definition wellFormed :: "world \<Rightarrow> ref \<Rightarrow> bool" where
  "wellFormed w sessionUser =
     (list_all (\<lambda>c. c < nextRef w) (CUSTOMERS w)
      \<and> currentUser w < nextRef w
      \<and> sessionUser < nextRef w
      \<and> list_ex (\<lambda>c. c_id (heap w c) = c_id (heap w (currentUser w))) (CUSTOMERS w))"

text \<open>A sequence of \<open>addToCart\<close> calls for one product; the flag says whether React
  renders after the call.\<close>

fun addToCartTimes :: "product \<Rightarrow> (int \<times> bool) list \<Rightarrow> world \<Rightarrow> world" where
  "addToCartTimes p [] w = w"
| "addToCartTimes p ((q, rerender) # rest) w =
     addToCartTimes p rest (if rerender then render (addToCart p q w) else addToCart p q w)"

section \<open>The tool dispatcher of the voice session (components/LiveSupport.tsx)\<close>

text \<open>
  The callbacks of the live session read the application through refs that an effect
  refreshes after every render: \<open>cartRef.current\<close> is the cart of the last render,
  \<open>placeOrderRef.current\<close> the \<open>handleCheckout\<close> of the last render and
  \<open>addToCartRef.current\<close> its \<open>addToCart\<close>.  In the model these are the fields of the
  record and the functions above.  The \<open>currentUser\<close> that \<open>onmessage\<close> mentions is
  the prop of the render in which \<open>startSession\<close> ran: the parameter \<open>sessionUser\<close>.
  The loop over the calls of one message runs to its end without a render in between,
  except where a call awaits (\<open>escalate_issue\<close>).

  An argument that the model did not send is \<open>None\<close>.  \<open>quantity || 1\<close> replaces a
  missing quantity and the quantity 0 by 1.  Calling \<open>toLowerCase\<close> on a missing
  \<open>productName\<close> raises a \<open>TypeError\<close> inside the callback of \<open>PRODUCTS.find\<close>, which
  runs when the catalog has an element.
\<close>

datatype js_error = TypeError

record fc_args =
  arg_query :: "string option"
  arg_category :: "string option"
  arg_productName :: "string option"
  arg_quantity :: "int option"
  arg_reason :: "string option"

record function_call =
  fc_id :: string
  fc_name :: string
  fc_args :: fc_args

datatype tool_result =
    ErrorResult string
  | ProductsResult "product list"
  | OrdersResult "order list"
  | MessageResult bool string
  | OrderResult bool string string
  | TicketResult bool string string

record function_response =
  r_id :: string
  r_name :: string
  r_result :: tool_result

text \<open>
  \<open>createEscalationTicket\<close> of services/integrationService.ts.  It waits one second
  before it draws the ticket number; React renders during the wait.
\<close>

definition createEscalationTicket :: "string \<Rightarrow> string option \<Rightarrow> world \<Rightarrow> string \<times> world" where
  "createEscalationTicket userId reason w0 =
     (let w1 = render w0;
          (r, w2) = draw w1
      in (''TKT-'' @ showNat (r + 10000), w2))"

definition dquote :: string where
  "dquote = [CHR 0x22]"

definition dispatchCall ::
  "product list \<Rightarrow> ref \<Rightarrow> function_call \<Rightarrow> world \<Rightarrow> js_error + (tool_result \<times> world)" where
  "dispatchCall PRODUCTS sessionUser fc w =
     (if fc_name fc = ''search_products'' then
        Inr (ProductsResult
               (searchProducts PRODUCTS (arg_query (fc_args fc)) (arg_category (fc_args fc))), w)
      else if fc_name fc = ''get_my_orders'' then
        Inr (OrdersResult (getCustomerOrders w (c_id (heap w sessionUser))), w)
      else if fc_name fc = ''add_to_cart'' then
        (case arg_productName (fc_args fc) of
           None \<Rightarrow>
             (if PRODUCTS = []
              then Inr (MessageResult False
                          (''Product '' @ dquote @ ''undefined'' @ dquote @ '' not found.''), w)
              else Inl TypeError)
         | Some productName \<Rightarrow>
             (case find (\<lambda>p. includes_str (toLowerCase (p_name p)) (toLowerCase productName))
                     PRODUCTS of
                Some foundProduct \<Rightarrow>
                  (let qty = (case arg_quantity (fc_args fc) of
                                None \<Rightarrow> 1
                              | Some q \<Rightarrow> if q = 0 then 1 else q);
                       w' = addToCart foundProduct qty w;
                       cat = p_category foundProduct;
                       recommendation =
                         (if cat \<in> set [''T-Shirt'', ''Jacket'', ''Hoodie'']
                          then ''Suggest Jeans.''
                          else if cat = ''Jeans'' then ''Suggest a T-Shirt.'' else [])
                   in Inr (MessageResult True
                             (''Added '' @ showInt qty @ '' x '' @ p_name foundProduct
                              @ '' to cart. Total: $'' @ showInt (p_price foundProduct * qty)
                              @ ''. [SYSTEM HINT: The user bought '' @ cat @ ''. ''
                              @ recommendation @ '']''), w'))
              | None \<Rightarrow>
                  Inr (MessageResult False
                         (''Product '' @ dquote @ productName @ dquote @ '' not found.''), w)))
      else if fc_name fc = ''place_order'' then
        (if cart w = [] then
           Inr (MessageResult False ''Cart is empty. Cannot place order.'', w)
         else
           (let (orderId, w') = handleCheckout w
            in Inr (OrderResult True orderId
                      (''Order placed successfully. Order ID: '' @ orderId
                       @ ''. You MUST tell the user this ID.''), w')))
      else if fc_name fc = ''escalate_issue'' then
        (let (ticketId, w') =
               createEscalationTicket (c_id (heap w sessionUser)) (arg_reason (fc_args fc)) w
         in Inr (TicketResult True ticketId
                   (''Escalation successful. Ticket ID: '' @ ticketId
                    @ ''. Inform the user.''), w'))
      else Inr (ErrorResult ''Unknown tool'', w))"

text \<open>
  The loop over \<open>message.toolCall.functionCalls\<close>.  An exception leaves the loop and
  the handler: the responses collected so far are not sent, the effects of the calls
  before it stay.
\<close>

fun dispatchAll ::
  "product list \<Rightarrow> ref \<Rightarrow> function_call list \<Rightarrow> function_response list \<Rightarrow> world
   \<Rightarrow> (js_error + function_response list) \<times> world" where
  "dispatchAll PRODUCTS sessionUser [] functionResponses w = (Inr functionResponses, w)"
| "dispatchAll PRODUCTS sessionUser (fc # fcs) functionResponses w =
     (case dispatchCall PRODUCTS sessionUser fc w of
        Inl e \<Rightarrow> (Inl e, w)
      | Inr (result, w') \<Rightarrow>
          dispatchAll PRODUCTS sessionUser fcs
            (functionResponses @ [\<lparr>r_id = fc_id fc, r_name = fc_name fc, r_result = result\<rparr>])
            w')"

definition onToolCall ::
  "product list \<Rightarrow> ref \<Rightarrow> function_call list \<Rightarrow> world
   \<Rightarrow> (js_error + function_response list) \<times> world" where
  "onToolCall PRODUCTS sessionUser functionCalls w =
     dispatchAll PRODUCTS sessionUser functionCalls [] w"

subsection \<open>Audio playback\<close>

text \<open>
  \<open>nextStartTimeRef\<close> and \<open>sourcesRef\<close> of the component.  A source node is recorded
  with the time passed to \<open>start\<close> and the duration of its buffer; \<open>sources\<close> lists the
  set in insertion order, and \<open>stopped\<close> logs the nodes on which \<open>stop()\<close> was called.
  Times are real numbers (\<open>ctx.currentTime\<close> and \<open>duration\<close> are seconds).  The audio
  payload of a message carries what \<open>decodeAudioData\<close> does with it: the duration of
  the decoded buffer, or \<open>None\<close> when decoding throws (the handler logs and goes on).
\<close>

record audio_source =
  src_id :: nat
  startedAt :: real
  bufferDuration :: real

record playback =
  nextStartTime :: real
  sources :: "audio_source list"
  stopped :: "audio_source list"
  created :: nat

datatype inline_audio = NoAudio | AudioData "real option"

record server_content =
  audio :: inline_audio
  interrupted :: bool

definition scheduleFragment :: "real \<Rightarrow> real option \<Rightarrow> playback \<Rightarrow> playback" where
  "scheduleFragment currentTime decoded s0 =
     (let s1 = s0\<lparr>nextStartTime := max (nextStartTime s0) currentTime\<rparr>
      in case decoded of
           None \<Rightarrow> s1
         | Some d \<Rightarrow>
             (let source = \<lparr>src_id = created s1, startedAt = nextStartTime s1,
                            bufferDuration = d\<rparr>
              in s1\<lparr>sources := sources s1 @ [source],
                    created := Suc (created s1),
                    nextStartTime := nextStartTime s1 + d\<rparr>))"

definition onInterrupted :: "playback \<Rightarrow> playback" where
  "onInterrupted s =
     s\<lparr>stopped := stopped s @ sources s, sources := [], nextStartTime := 0\<rparr>"

text \<open>The \<open>ended\<close> listener of a source node removes it from the set.\<close>

definition onEnded :: "nat \<Rightarrow> playback \<Rightarrow> playback" where
  "onEnded i s = s\<lparr>sources := filter (\<lambda>src. src_id src \<noteq> i) (sources s)\<rparr>"

text \<open>
  The part of \<open>onmessage\<close> after the tool calls.  \<open>ctx\<close> is \<open>None\<close> when
  \<open>audioContextRef.current\<close> is null and the reading of \<open>ctx.currentTime\<close> otherwise.
\<close>

definition onServerContent :: "real option \<Rightarrow> server_content \<Rightarrow> playback \<Rightarrow> playback" where
  "onServerContent ctx m s0 =
     (let s1 = (case audio m of
                  NoAudio \<Rightarrow> s0
                | AudioData decoded \<Rightarrow>
                    (case ctx of
                       None \<Rightarrow> s0
                     | Some currentTime \<Rightarrow> scheduleFragment currentTime decoded s0))
      in if interrupted m then onInterrupted s1 else s1)"

text \<open>
  \<open>startSession\<close> sets the cursor to the current time of the new output context.
  \<open>twoScheduled\<close> is a session that started at time 1 and scheduled two fragments of
  half a second at that time.
\<close>

definition initialPlayback :: "real \<Rightarrow> playback" where
  "initialPlayback currentTime =
     \<lparr>nextStartTime = currentTime, sources = [], stopped = [], created = 0\<rparr>"

definition fragment :: "real \<Rightarrow> server_content" where
  "fragment d = \<lparr>audio = AudioData (Some d), interrupted = False\<rparr>"

definition interruption :: server_content where
  "interruption = \<lparr>audio = NoAudio, interrupted = True\<rparr>"

definition twoScheduled :: playback where
  "twoScheduled =
     onServerContent (Some 1) (fragment (1 / 2))
       (onServerContent (Some 1) (fragment (1 / 2)) (initialPlayback 1))"

subsection \<open>A concrete session\<close>

definition demoSeed :: "nat \<Rightarrow> order_item list" where
  "demoSeed k =
     (if k = 0 then [\<lparr>productId = ''P1001'', oi_quantity = 2\<rparr>,
                     \<lparr>productId = ''P1000'', oi_quantity = 1\<rparr>]
      else if k = 1 then [\<lparr>productId = ''P1002'', oi_quantity = 1\<rparr>]
      else if k = 2 then [\<lparr>productId = ''P1000'', oi_quantity = 2\<rparr>,
                          \<lparr>productId = ''P1002'', oi_quantity = 1\<rparr>,
                          \<lparr>productId = ''P1001'', oi_quantity = 1\<rparr>]
      else if k = 3 then [\<lparr>productId = ''P1001'', oi_quantity = 1\<rparr>]
      else [\<lparr>productId = ''P1002'', oi_quantity = 2\<rparr>,
            \<lparr>productId = ''P1000'', oi_quantity = 2\<rparr>])"

definition demoWorld :: world where
  "demoWorld = initialWorld demoCatalog demoSeed (\<lambda>k. 7782) ''2026-01-15''"

text \<open>
  Two states of that session: the administrator with two T-shirts and one pair of
  jeans in the cart, and Alice (\<open>C1\<close>) with one pair of jeans.
\<close>

definition shoppingWorld :: world where
  "shoppingWorld = render (addToCart jeans 1 (render (addToCart tshirt 2 demoWorld)))"

definition aliceWorld :: world where
  "aliceWorld = render (addToCart jeans 1 (render (switchUser ''C1'' demoWorld)))"

definition call :: "string \<Rightarrow> string \<Rightarrow> fc_args \<Rightarrow> function_call" where
  "call i n a = \<lparr>fc_id = i, fc_name = n, fc_args = a\<rparr>"

definition noArgs :: fc_args where
  "noArgs = \<lparr>arg_query = None, arg_category = None, arg_productName = None,
             arg_quantity = None, arg_reason = None\<rparr>"

section \<open>Properties of the catalog queries\<close>

lemma startsWith_iff: "startsWith s t \<longleftrightarrow> (\<exists>rest. s = t @ rest)"
  by (induction s t rule: startsWith.induct) auto

lemma includes_str_iff: "includes_str s t \<longleftrightarrow> (\<exists>before after. s = before @ t @ after)"
proof (induction s)
  case Nil
  then show ?case by simp
next
  case (Cons x xs)
  show ?case
  proof
    assume "includes_str (x # xs) t"
    then consider "startsWith (x # xs) t" | "includes_str xs t" by auto
    then show "\<exists>before after. x # xs = before @ t @ after"
    proof cases
      case 1
      then obtain rest where "x # xs = t @ rest" by (auto simp: startsWith_iff)
      then have "x # xs = [] @ t @ rest" by simp
      then show ?thesis by blast
    next
      case 2
      then obtain b a where "xs = b @ t @ a" using Cons.IH by auto
      then have "x # xs = (x # b) @ t @ a" by simp
      then show ?thesis by blast
    qed
  next
    assume "\<exists>before after. x # xs = before @ t @ after"
    then obtain b a where eq: "x # xs = b @ t @ a" by auto
    show "includes_str (x # xs) t"
    proof (cases b)
      case Nil
      with eq have "startsWith (x # xs) t" by (auto simp: startsWith_iff)
      then show ?thesis by simp
    next
      case (Cons y ys)
      with eq have "xs = ys @ t @ a" by simp
      then have "includes_str xs t" using Cons.IH by auto
      then show ?thesis by simp
    qed
  qed
qed

lemma includes_str_empty: "includes_str s []"
  by (cases s) simp_all

lemma toLowerCase_empty: "toLowerCase s = [] \<longleftrightarrow> s = []"
  by (simp add: toLowerCase_def)

text \<open>
  Claim C8.  For every catalog, query and category, \<open>searchProducts\<close> returns the first
  five products, in catalog order, that pass both filters of the specification: the
  query by case-insensitive containment in the name, a non-generic category by
  case-insensitive containment in the category, a generic category (apparel, clothing,
  apparels) not at all.  The result has at most five elements, and it is the empty list
  when nothing matches; the function has no failing branch.
\<close>

theorem searchProducts_meets_spec:
  "searchProducts PRODUCTS query category = search_spec PRODUCTS query category
   \<and> length (searchProducts PRODUCTS query category) \<le> 5
   \<and> searchProducts PRODUCTS query category
       = take 5 (filter (\<lambda>p. categoryMatches category p \<and> queryMatches query p) PRODUCTS)
   \<and> (filter (\<lambda>p. categoryMatches category p \<and> queryMatches query p) PRODUCTS = []
        \<longrightarrow> searchProducts PRODUCTS query category = [])"
proof -
  have eq: "searchProducts PRODUCTS query category = search_spec PRODUCTS query category"
  proof (cases category)
    case None
    then show ?thesis
      by (cases query)
         (auto simp: searchProducts_def search_spec_def categoryMatches_def queryMatches_def
                     Let_def includes_str_empty toLowerCase_def)
  next
    case (Some cat)
    show ?thesis
    proof (cases query)
      case None
      with Some show ?thesis
        by (auto simp: searchProducts_def search_spec_def categoryMatches_def
                       queryMatches_def genericCategory_def Let_def includes_str_empty
                       toLowerCase_def)
    next
      case (Some q)
      with \<open>category = Some cat\<close> show ?thesis
        by (auto simp: searchProducts_def search_spec_def categoryMatches_def
                       queryMatches_def genericCategory_def Let_def includes_str_empty
                       toLowerCase_def conj_commute)
    qed
  qed
  then show ?thesis
    by (simp add: search_spec_def)
qed

theorem searchProducts_meets_spec_witness:
  "searchProducts demoCatalog (Some ''JEANS'') (Some ''Clothing'') = [jeans]
   \<and> search_spec demoCatalog (Some ''JEANS'') (Some ''Clothing'') = [jeans]
   \<and> searchProducts demoCatalog (Some ''nonexistent-xyz'') None = []"
proof -
  have a: "searchProducts demoCatalog (Some ''JEANS'') (Some ''Clothing'') = [jeans]"
    by (simp add: searchProducts_def demoCatalog_def tshirt_def jeans_def jacket_def
                  toLowerCase_def toLowerChar_def)
  have b: "filter (\<lambda>p. categoryMatches None p \<and> queryMatches (Some ''nonexistent-xyz'') p)
             demoCatalog = []"
    by (simp add: categoryMatches_def queryMatches_def demoCatalog_def tshirt_def jeans_def
                  jacket_def toLowerCase_def toLowerChar_def)
  note jeans_search =
    searchProducts_meets_spec [of demoCatalog "Some ''JEANS''" "Some ''Clothing''"]
  note none_search =
    searchProducts_meets_spec [of demoCatalog "Some ''nonexistent-xyz''" None]
  from jeans_search a
  have c: "search_spec demoCatalog (Some ''JEANS'') (Some ''Clothing'') = [jeans]"
    by metis
  from none_search b
  have d: "searchProducts demoCatalog (Some ''nonexistent-xyz'') None = []"
    by blast
  from a c d show ?thesis
    by blast
qed

section \<open>Rendering and the cart operations\<close>

lemma foldl_applyUpdate_pending:
  "pending (foldl (\<lambda>s u. applyUpdate u s) w us) = pending w"
proof (induction us arbitrary: w)
  case Nil
  then show ?case by simp
next
  case (Cons u us)
  then show ?case by (cases u) simp_all
qed

lemma applyUpdate_pending_update:
  "applyUpdate u (w\<lparr>pending := ps\<rparr>) = (applyUpdate u w)\<lparr>pending := ps\<rparr>"
  by (cases u) simp_all

lemma foldl_applyUpdate_pending_update:
  "foldl (\<lambda>s u. applyUpdate u s) (w\<lparr>pending := ps\<rparr>) us
     = (foldl (\<lambda>s u. applyUpdate u s) w us)\<lparr>pending := ps\<rparr>"
  by (induction us arbitrary: w) (simp_all add: applyUpdate_pending_update)

lemma render_enqueue:
  "render (enqueue us w) = (foldl (\<lambda>s u. applyUpdate u s) (render w) us)"
  by (simp add: render_def enqueue_def foldl_applyUpdate_pending_update)

lemma render_idem: "render (render w) = render w"
  by (simp add: render_def)

lemma render_no_pending: "pending w = [] \<Longrightarrow> render w = w"
  by (simp add: render_def)

lemma pending_render: "pending (render w) = []"
  by (simp add: render_def)

lemma cart_render_addToCart:
  "cart (render (addToCart p q w)) = addToCart_updater p q (cart (render w))"
  by (simp add: addToCart_def render_enqueue)

lemma addToCart_updater_absent:
  "find (\<lambda>item. p_id (product item) = p_id p) prev = None
   \<Longrightarrow> addToCart_updater p q prev = prev @ [\<lparr>product = p, quantity = q\<rparr>]"
  by (simp add: addToCart_updater_def)

lemma addToCart_updater_present:
  assumes "find (\<lambda>item. p_id (product item) = p_id p) prev = None"
  shows "addToCart_updater p q (prev @ [\<lparr>product = p, quantity = n\<rparr>])
           = prev @ [\<lparr>product = p, quantity = n + q\<rparr>]"
proof -
  from assms have no: "\<forall>item\<in>set prev. p_id (product item) \<noteq> p_id p"
    by (simp add: find_None_iff)
  have "find (\<lambda>item. p_id (product item) = p_id p) (prev @ [\<lparr>product = p, quantity = n\<rparr>])
          \<noteq> None"
    by (auto simp: find_None_iff)
  then obtain e where
    "find (\<lambda>item. p_id (product item) = p_id p) (prev @ [\<lparr>product = p, quantity = n\<rparr>]) = Some e"
    by blast
  moreover from no have
    "map (\<lambda>item. if p_id (product item) = p_id p
                  then item\<lparr>quantity := quantity item + q\<rparr> else item) prev = prev"
    by (simp add: map_idI)
  ultimately show ?thesis
    by (simp add: addToCart_updater_def)
qed

lemma addToCartTimes_present:
  assumes "find (\<lambda>item. p_id (product item) = p_id p) prev = None"
    and "cart (render w) = prev @ [\<lparr>product = p, quantity = n\<rparr>]"
  shows "cart (render (addToCartTimes p qs w))
           = prev @ [\<lparr>product = p, quantity = n + sum_list (map fst qs)\<rparr>]"
  using assms(2)
proof (induction qs arbitrary: w n)
  case Nil
  then show ?case by simp
next
  case (Cons x rest)
  obtain q r where x: "x = (q, r)" by (cases x)
  let ?w = "if r then render (addToCart p q w) else addToCart p q w"
  have "cart (render ?w) = prev @ [\<lparr>product = p, quantity = n + q\<rparr>]"
    using Cons.prems assms(1)
    by (simp add: render_idem cart_render_addToCart addToCart_updater_present)
  from Cons.IH [OF this] show ?case
    by (simp add: x add.assoc)
qed

text \<open>
  Claim C6.  Take a state without pending updates whose cart has no entry for the
  product \<open>p\<close>, and call \<open>addToCart\<close> for \<open>p\<close> with the quantities of a non-empty
  list, React rendering after any of the calls or not.  Then the cart is the old cart
  followed by one entry for \<open>p\<close> whose quantity is the sum of the quantities: there
  is exactly one entry with the id of \<open>p\<close>.  The quantities need not be positive for
  this; quantities that are at least 1 are a special case.
\<close>

theorem repeated_addToCart_is_additive:
  assumes "pending w = []"
    and "find (\<lambda>item. p_id (product item) = p_id p) (cart w) = None"
    and "qs \<noteq> []"
  shows "cart (render (addToCartTimes p qs w))
           = cart w @ [\<lparr>product = p, quantity = sum_list (map fst qs)\<rparr>]
         \<and> filter (\<lambda>item. p_id (product item) = p_id p) (cart (render (addToCartTimes p qs w)))
           = [\<lparr>product = p, quantity = sum_list (map fst qs)\<rparr>]"
proof -
  from assms(3) obtain q r rest where qs: "qs = (q, r) # rest"
    by (cases qs) auto
  let ?w = "if r then render (addToCart p q w) else addToCart p q w"
  have "cart (render ?w) = cart w @ [\<lparr>product = p, quantity = q\<rparr>]"
    using assms(1,2)
    by (simp add: render_idem cart_render_addToCart addToCart_updater_absent render_no_pending)
  from addToCartTimes_present [OF assms(2) this, of rest]
  have final: "cart (render (addToCartTimes p qs w))
                 = cart w @ [\<lparr>product = p, quantity = sum_list (map fst qs)\<rparr>]"
    by (simp add: qs)
  from assms(2) have "filter (\<lambda>item. p_id (product item) = p_id p) (cart w) = []"
    by (simp add: find_None_iff filter_empty_conv)
  with final show ?thesis by simp
qed

theorem repeated_addToCart_is_additive_witness:
  "cart (render (addToCartTimes jeans [(1, True), (2, False), (3, True)]
           (render (addToCart tshirt 2 demoWorld))))
     = [\<lparr>product = tshirt, quantity = 2\<rparr>, \<lparr>product = jeans, quantity = 6\<rparr>]"
proof -
  let ?w = "render (addToCart tshirt 2 demoWorld)"
  have r: "render demoWorld = demoWorld"
    by (simp add: render_no_pending demoWorld_def initialWorld_def)
  have c: "cart ?w = [\<lparr>product = tshirt, quantity = 2\<rparr>]"
    by (simp add: cart_render_addToCart r addToCart_updater_def)
       (simp add: demoWorld_def initialWorld_def)
  have a1: "pending ?w = []" by (simp add: pending_render)
  have a2: "find (\<lambda>item. p_id (product item) = p_id jeans) (cart ?w) = None"
    unfolding c by (simp add: tshirt_def jeans_def)
  have a3: "[(1, True), (2, False), (3::int, True)] \<noteq> []" by simp
  from repeated_addToCart_is_additive [OF a1 a2 a3] c show ?thesis
    by simp
qed

section \<open>Checkout\<close>

lemma foldl_plus_sum_list:
  "foldl (\<lambda>sum item. sum + f item) (a::int) xs = a + sum_list (map f xs)"
  by (induction xs arbitrary: a) simp_all

lemma handleCheckout_orderId:
  "fst (handleCheckout w) = ''ORD-'' @ showNat (entropy w (drawn w))"
  by (simp add: handleCheckout_def draw_def Let_def)

lemma find_skip_fresh:
  "a \<notin> set cs \<Longrightarrow> find (\<lambda>c. c \<noteq> a \<longrightarrow> P c) cs = find P cs"
  by (induction cs) auto

lemma handleCheckout_state:
  assumes fresh: "nextRef w \<notin> set (CUSTOMERS w)"
    and cur: "currentUser w \<noteq> nextRef w"
    and found: "find (\<lambda>c. c_id (heap w c) = c_id (heap w (currentUser w))) (CUSTOMERS w) = Some c"
  shows "snd (handleCheckout w) =
           w\<lparr>heap := ((heap w)
                (nextRef w := (heap w (currentUser w))
                                \<lparr>orders := order_spec w # orders (heap w (currentUser w))\<rparr>))
                (c := (heap w c)\<lparr>orders := order_spec w # orders (heap w c)\<rparr>),
             nextRef := Suc (nextRef w),
             pending := pending w @ [SetCurrentUser (nextRef w), SetCartTo []],
             drawn := Suc (drawn w)\<rparr>"
proof -
  from found have cin: "c \<in> set (CUSTOMERS w)"
    by (auto simp: find_Some_iff)
  with fresh have ca: "c \<noteq> nextRef w" by auto
  show ?thesis
    using ca cur found
    by (simp add: handleCheckout_def draw_def Let_def enqueue_def order_spec_def
                  foldl_plus_sum_list find_skip_fresh [OF fresh])
qed


lemma calcTotal_of_cart:
  assumes "\<forall>item\<in>set c. find (\<lambda>p. p_id p = p_id (product item)) PRODUCTS = Some (product item)"
  shows "calcTotal PRODUCTS
           (map (\<lambda>item. \<lparr>productId = p_id (product item), oi_quantity = quantity item\<rparr>) c)
         = sum_list (map (\<lambda>item. p_price (product item) * quantity item) c)"
proof -
  have "map (\<lambda>item. case find (\<lambda>p. p_id p = productId item) PRODUCTS of
                       Some p \<Rightarrow> p_price p * oi_quantity item | None \<Rightarrow> 0)
          (map (\<lambda>item. \<lparr>productId = p_id (product item), oi_quantity = quantity item\<rparr>) c)
        = map (\<lambda>item. p_price (product item) * quantity item) c"
    using assms by simp
  then show ?thesis
    by (simp only: calcTotal_def foldl_plus_sum_list)
qed

lemma wellFormed_found:
  assumes "wellFormed w u"
  obtains c where
    "find (\<lambda>c. c_id (heap w c) = c_id (heap w (currentUser w))) (CUSTOMERS w) = Some c"
    and "nextRef w \<notin> set (CUSTOMERS w)" and "currentUser w \<noteq> nextRef w"
    and "u \<noteq> nextRef w"
proof -
  from assms have ex: "\<exists>c\<in>set (CUSTOMERS w). c_id (heap w c) = c_id (heap w (currentUser w))"
    and all: "\<forall>c\<in>set (CUSTOMERS w). c < nextRef w"
    and cur: "currentUser w < nextRef w" and u: "u < nextRef w"
    by (auto simp: wellFormed_def list_all_iff list_ex_iff)
  from ex have "find (\<lambda>c. c_id (heap w c) = c_id (heap w (currentUser w))) (CUSTOMERS w) \<noteq> None"
    by (auto simp: find_None_iff)
  then obtain c where
    "find (\<lambda>c. c_id (heap w c) = c_id (heap w (currentUser w))) (CUSTOMERS w) = Some c"
    by blast
  moreover from all have "nextRef w \<notin> set (CUSTOMERS w)" by auto
  ultimately show ?thesis using that cur u by auto
qed

lemma render_handleCheckout:
  assumes "pending w = []" and "wellFormed w u"
  shows "cart (render (snd (handleCheckout w))) = []"
    and "currentUser (render (snd (handleCheckout w))) = nextRef w"
    and "heap (render (snd (handleCheckout w))) (nextRef w)
           = (heap w (currentUser w))\<lparr>orders := order_spec w # orders (heap w (currentUser w))\<rparr>"
    and "pending (snd (handleCheckout w)) = [SetCurrentUser (nextRef w), SetCartTo []]"
    and "cart (snd (handleCheckout w)) = cart w"
    and "currentUser (snd (handleCheckout w)) = currentUser w"
proof -
  from assms(2) obtain c where
    found: "find (\<lambda>c. c_id (heap w c) = c_id (heap w (currentUser w))) (CUSTOMERS w) = Some c"
    and fresh: "nextRef w \<notin> set (CUSTOMERS w)" and cur: "currentUser w \<noteq> nextRef w"
    by (rule wellFormed_found)
  from found have "c \<in> set (CUSTOMERS w)" by (auto simp: find_Some_iff)
  with fresh have ca: "c \<noteq> nextRef w" by auto
  note st = handleCheckout_state [OF fresh cur found]
  show "cart (render (snd (handleCheckout w))) = []"
    by (simp add: st render_def assms(1))
  show "currentUser (render (snd (handleCheckout w))) = nextRef w"
    by (simp add: st render_def assms(1))
  show "heap (render (snd (handleCheckout w))) (nextRef w)
           = (heap w (currentUser w))\<lparr>orders := order_spec w # orders (heap w (currentUser w))\<rparr>"
    using ca by (simp add: st render_def assms(1))
  show "pending (snd (handleCheckout w)) = [SetCurrentUser (nextRef w), SetCartTo []]"
    by (simp add: st assms(1))
  show "cart (snd (handleCheckout w)) = cart w"
    by (simp add: st)
  show "currentUser (snd (handleCheckout w)) = currentUser w"
    by (simp add: st)
qed

subsection \<open>The concrete session\<close>

lemma demoWorld_fields:
  "nextRef demoWorld = 4" "CUSTOMERS demoWorld = [0, 1, 2, 3]" "cart demoWorld = []"
  "currentUser demoWorld = 0" "pending demoWorld = []" "entropy demoWorld = (\<lambda>k. 7782)"
  "drawn demoWorld = 0" "today demoWorld = ''2026-01-15''" "isCartOpen demoWorld = False"
  by (simp_all add: demoWorld_def initialWorld_def)

lemma demoWorld_heap:
  "heap demoWorld 0 = mockCustomers demoCatalog demoSeed ! 0"
  "heap demoWorld (Suc 0) = mockCustomers demoCatalog demoSeed ! 1"
  "heap demoWorld 2 = mockCustomers demoCatalog demoSeed ! 2"
  "heap demoWorld 3 = mockCustomers demoCatalog demoSeed ! 3"
  by (simp_all add: demoWorld_def initialWorld_def mockCustomers_def)

lemma demoWorld_ids:
  "c_id (heap demoWorld 0) = ''ADMIN''" "c_id (heap demoWorld (Suc 0)) = ''C1''"
  "c_id (heap demoWorld 2) = ''C2''" "c_id (heap demoWorld 3) = ''C3''"
  by (simp_all add: demoWorld_heap mockCustomers_def)

lemma demoWorld_orders:
  "orders (heap demoWorld 0) = []"
  "map o_id (orders (heap demoWorld (Suc 0))) = [''ORD-7782'', ''ORD-9921'']"
  by (simp_all add: demoWorld_heap mockCustomers_def seededOrder_def)

lemma shoppingWorld_eq:
  "shoppingWorld = demoWorld\<lparr>cart := [\<lparr>product = tshirt, quantity = 2\<rparr>,
                                        \<lparr>product = jeans, quantity = 1\<rparr>],
                               isCartOpen := True\<rparr>"
  by (simp add: shoppingWorld_def render_def addToCart_def enqueue_def demoWorld_fields
                addToCart_updater_def tshirt_def jeans_def)

lemma aliceWorld_eq:
  "aliceWorld = demoWorld\<lparr>cart := [\<lparr>product = jeans, quantity = 1\<rparr>],
                            currentUser := 1, isCartOpen := True\<rparr>"
  by (simp add: aliceWorld_def render_def addToCart_def enqueue_def demoWorld_fields
                addToCart_updater_def switchUser_def demoWorld_ids)


lemma wellFormed_shoppingWorld: "wellFormed shoppingWorld 0"
  by (simp add: wellFormed_def shoppingWorld_eq demoWorld_fields)

lemma wellFormed_aliceWorld: "wellFormed aliceWorld 1"
  by (simp add: wellFormed_def aliceWorld_eq demoWorld_fields demoWorld_ids)

lemma showNat_7782: "showNat 7782 = ''7782''"
  by (simp add: showNat.simps)

section \<open>The dispatcher\<close>

lemma getCustomerOrders_handleCheckout:
  assumes "wellFormed w u"
  shows "getCustomerOrders (snd (handleCheckout w)) (c_id (heap w (currentUser w)))
           = order_spec w # getCustomerOrders w (c_id (heap w (currentUser w)))"
proof -
  from assms obtain c where
    found: "find (\<lambda>c. c_id (heap w c) = c_id (heap w (currentUser w))) (CUSTOMERS w) = Some c"
    and fresh: "nextRef w \<notin> set (CUSTOMERS w)" and cur: "currentUser w \<noteq> nextRef w"
    by (rule wellFormed_found)
  note st = handleCheckout_state [OF fresh cur found]
  let ?h = "heap (snd (handleCheckout w))"
  have ids: "c_id (?h x) = c_id (heap w x)" if "x \<in> set (CUSTOMERS w)" for x
    using that fresh by (auto simp: st)
  have "find (\<lambda>x. c_id (?h x) = c_id (heap w (currentUser w))) (CUSTOMERS w)
          = find (\<lambda>x. c_id (heap w x) = c_id (heap w (currentUser w))) (CUSTOMERS w)"
    by (rule find_cong) (simp_all add: ids)
  with found have f: "find (\<lambda>x. c_id (?h x) = c_id (heap w (currentUser w))) (CUSTOMERS w) = Some c"
    by simp
  have cs: "CUSTOMERS (snd (handleCheckout w)) = CUSTOMERS w"
    by (simp add: st)
  have "orders (?h c) = order_spec w # orders (heap w c)"
    by (simp add: st)
  with f cs found show ?thesis
    by (simp add: getCustomerOrders_def)
qed

lemma handleCheckout_keeps_id:
  assumes "wellFormed w u"
  shows "c_id (heap (snd (handleCheckout w)) u) = c_id (heap w u)"
proof -
  from assms obtain c where
    found: "find (\<lambda>c. c_id (heap w c) = c_id (heap w (currentUser w))) (CUSTOMERS w) = Some c"
    and fresh: "nextRef w \<notin> set (CUSTOMERS w)" and cur: "currentUser w \<noteq> nextRef w"
    and u: "u \<noteq> nextRef w"
    by (rule wellFormed_found)
  show ?thesis
    using u by (simp add: handleCheckout_state [OF fresh cur found])
qed

text \<open>
  Claim C10.  Let the store be well formed, the cart of the last render non-empty and
  the customer of the session the active customer.  Then a batch of a \<open>place_order\<close>
  call followed by a \<open>get_my_orders\<close> call returns two results: the first reports
  success with the id of the new order, and the second is an order history whose first
  entry is that order, followed by the history that \<open>getCustomerOrders\<close> returned
  before.  No render lies between the two calls: the order is visible because
  \<open>handleCheckout\<close> assigns the \<open>orders\<close> of the element of \<open>CUSTOMERS\<close> at once.
\<close>

theorem place_order_then_get_my_orders:
  assumes "cart w \<noteq> []" and "wellFormed w u"
    and "c_id (heap w u) = c_id (heap w (currentUser w))"
    and "fc_name fc1 = ''place_order''" and "fc_name fc2 = ''get_my_orders''"
  shows "fst (onToolCall PRODUCTS u [fc1, fc2] w)
         = Inr [\<lparr>r_id = fc_id fc1, r_name = ''place_order'',
                 r_result = OrderResult True (o_id (order_spec w))
                   (''Order placed successfully. Order ID: '' @ o_id (order_spec w)
                    @ ''. You MUST tell the user this ID.'')\<rparr>,
                \<lparr>r_id = fc_id fc2, r_name = ''get_my_orders'',
                 r_result = OrdersResult
                   (order_spec w # getCustomerOrders w (c_id (heap w u)))\<rparr>]"
proof -
  obtain oid w1 where hc: "handleCheckout w = (oid, w1)"
    by (cases "handleCheckout w")
  have oid: "oid = o_id (order_spec w)"
    using handleCheckout_orderId [of w] hc by (simp add: order_spec_def)
  have d1: "dispatchCall PRODUCTS u fc1 w
              = Inr (OrderResult True oid
                       (''Order placed successfully. Order ID: '' @ oid
                        @ ''. You MUST tell the user this ID.''), w1)"
    using assms(1,4) hc by (simp add: dispatchCall_def)
  have "getCustomerOrders w1 (c_id (heap w1 u))
          = order_spec w # getCustomerOrders w (c_id (heap w u))"
    using getCustomerOrders_handleCheckout [OF assms(2)]
      handleCheckout_keeps_id [OF assms(2)] hc assms(3) by simp
  then have d2: "dispatchCall PRODUCTS u fc2 w1
              = Inr (OrdersResult (order_spec w # getCustomerOrders w (c_id (heap w u))), w1)"
    using assms(5) by (simp add: dispatchCall_def)
  show ?thesis
    using d1 d2 assms(4,5) by (simp add: onToolCall_def oid)
qed

theorem place_order_then_get_my_orders_witness:
  "fst (onToolCall demoCatalog 1
          [call ''a'' ''place_order'' noArgs, call ''b'' ''get_my_orders'' noArgs] aliceWorld)
     = Inr [\<lparr>r_id = ''a'', r_name = ''place_order'',
             r_result = OrderResult True ''ORD-7782''
               ''Order placed successfully. Order ID: ORD-7782. You MUST tell the user this ID.''\<rparr>,
            \<lparr>r_id = ''b'', r_name = ''get_my_orders'',
             r_result = OrdersResult
               (\<lparr>o_id = ''ORD-7782'', o_date = ''2026-01-15'', o_status = Processing,
                 o_items = [\<lparr>productId = ''P1001'', oi_quantity = 1\<rparr>], o_total = 50\<rparr>
                # orders (heap demoWorld 1))\<rparr>]"
proof -
  have a1: "cart aliceWorld \<noteq> []" by (simp add: aliceWorld_eq)
  have a3: "c_id (heap aliceWorld 1) = c_id (heap aliceWorld (currentUser aliceWorld))"
    by (simp add: aliceWorld_eq)
  have a4: "fc_name (call ''a'' ''place_order'' noArgs) = ''place_order''"
    by (simp add: call_def)
  have a5: "fc_name (call ''b'' ''get_my_orders'' noArgs) = ''get_my_orders''"
    by (simp add: call_def)
  have o: "order_spec aliceWorld
             = \<lparr>o_id = ''ORD-7782'', o_date = ''2026-01-15'', o_status = Processing,
                o_items = [\<lparr>productId = ''P1001'', oi_quantity = 1\<rparr>], o_total = 50\<rparr>"
    by (simp add: order_spec_def aliceWorld_eq demoWorld_fields showNat_7782 jeans_def)
  have g: "getCustomerOrders aliceWorld (c_id (heap aliceWorld (Suc 0)))
             = orders (heap demoWorld (Suc 0))"
    by (simp add: getCustomerOrders_def aliceWorld_eq demoWorld_fields demoWorld_ids)
  from place_order_then_get_my_orders [OF a1 wellFormed_aliceWorld a3 a4 a5, of demoCatalog]
  show ?thesis
    by (simp add: o g call_def)
qed





text \<open>
  Claim C7, as the code has it.  The id that \<open>handleCheckout\<close> returns is \<open>ORD-\<close>
  followed by the decimal digits of the integer drawn with
  \<open>Math.floor(Math.random() * 10000)\<close>.  It depends on nothing else: the customers and
  their orders in the store are not consulted, so nothing keeps the id apart from the
  ids of the orders that exist.
\<close>

theorem checkout_order_id:
  "fst (handleCheckout w) = ''ORD-'' @ showNat (entropy w (drawn w))
   \<and> fst (handleCheckout (w\<lparr>heap := h, CUSTOMERS := cs\<rparr>)) = fst (handleCheckout w)"
  by (simp add: handleCheckout_orderId)

text \<open>
  Counterexample to claim C7 as stated.  Alice has the seeded orders \<open>ORD-7782\<close> and \<open>ORD-9921\<close> and one pair of jeans in the
  cart.  When the draw is 7782 her checkout returns \<open>ORD-7782\<close> again, and her history
  then holds two orders with that id.
\<close>

theorem checkout_order_id_collides:
  "map o_id (orders (heap aliceWorld (currentUser aliceWorld))) = [''ORD-7782'', ''ORD-9921'']
   \<and> cart aliceWorld = [\<lparr>product = jeans, quantity = 1\<rparr>]
   \<and> fst (handleCheckout aliceWorld) = ''ORD-7782''
   \<and> map o_id (orders (heap (render (snd (handleCheckout aliceWorld)))
                        (currentUser (render (snd (handleCheckout aliceWorld))))))
       = [''ORD-7782'', ''ORD-7782'', ''ORD-9921'']
   \<and> map o_id (getCustomerOrders (snd (handleCheckout aliceWorld)) ''C1'')
       = [''ORD-7782'', ''ORD-7782'', ''ORD-9921'']"
proof -
  have p: "pending aliceWorld = []" by (simp add: aliceWorld_eq demoWorld_fields)
  note r = render_handleCheckout [OF p wellFormed_aliceWorld]
  have o: "o_id (order_spec aliceWorld) = ''ORD-7782''"
    by (simp add: order_spec_def aliceWorld_eq demoWorld_fields showNat_7782)
  have old: "map o_id (orders (heap aliceWorld (currentUser aliceWorld)))
               = [''ORD-7782'', ''ORD-9921'']"
    by (simp add: aliceWorld_eq demoWorld_orders)
  have idc: "c_id (heap aliceWorld (currentUser aliceWorld)) = ''C1''"
    by (simp add: aliceWorld_eq demoWorld_ids)
  have g0: "getCustomerOrders aliceWorld ''C1'' = orders (heap aliceWorld (currentUser aliceWorld))"
    by (simp add: getCustomerOrders_def aliceWorld_eq demoWorld_fields demoWorld_ids)
  have g: "getCustomerOrders (snd (handleCheckout aliceWorld)) ''C1''
             = order_spec aliceWorld # orders (heap aliceWorld (currentUser aliceWorld))"
    using getCustomerOrders_handleCheckout [OF wellFormed_aliceWorld] g0 idc by simp
  have i: "fst (handleCheckout aliceWorld) = ''ORD-7782''"
    by (simp add: handleCheckout_orderId aliceWorld_eq demoWorld_fields showNat_7782)
  have c: "cart aliceWorld = [\<lparr>product = jeans, quantity = 1\<rparr>]"
    by (simp add: aliceWorld_eq)
  show ?thesis
    using old i c by (simp add: r g o)
qed


subsection \<open>Calls in one batch\<close>

lemma find_jeans:
  "find (\<lambda>p. includes_str (toLowerCase (p_name p)) (toLowerCase ''jeans'')) demoCatalog
     = Some jeans"
  by (simp add: demoCatalog_def tshirt_def jeans_def jacket_def toLowerCase_def
                toLowerChar_def)

lemma showInt_values:
  "showInt 1 = ''1''" "showInt 50 = ''50''" "showInt (- 2) = ''-2''" "showInt (- 100) = ''-100''"
  by (simp_all add: showInt_def showNat.simps)

lemma dispatch_add_jeans:
  "dispatchCall demoCatalog u
     (call i ''add_to_cart'' (noArgs\<lparr>arg_productName := Some ''jeans''\<rparr>)) w
   = Inr (MessageResult True
            ''Added 1 x Modern Blue Jeans to cart. Total: $50. [SYSTEM HINT: The user bought Jeans. Suggest a T-Shirt.]'',
          addToCart jeans 1 w)"
proof -
  have "p_name jeans = ''Modern Blue Jeans''" "p_category jeans = ''Jeans''" "p_price jeans = 50"
    by (simp_all add: jeans_def)
  then show ?thesis
    by (simp add: dispatchCall_def call_def noArgs_def find_jeans showInt_values)
qed

lemma dispatch_add_jeans_negative:
  "dispatchCall demoCatalog u
     (call i ''add_to_cart'' (noArgs\<lparr>arg_productName := Some ''jeans'',
                                      arg_quantity := Some (- 2)\<rparr>)) w
   = Inr (MessageResult True
            ''Added -2 x Modern Blue Jeans to cart. Total: $-100. [SYSTEM HINT: The user bought Jeans. Suggest a T-Shirt.]'',
          addToCart jeans (- 2) w)"
proof -
  have "p_name jeans = ''Modern Blue Jeans''" "p_category jeans = ''Jeans''" "p_price jeans = 50"
    by (simp_all add: jeans_def)
  then show ?thesis
    by (simp add: dispatchCall_def call_def noArgs_def find_jeans showInt_values)
qed

lemma cart_addToCart: "cart (addToCart p q w) = cart w"
  by (simp add: addToCart_def enqueue_def)

lemma render_demoWorld: "render demoWorld = demoWorld"
  by (simp add: render_no_pending demoWorld_fields)

text \<open>
  Claim C3 fails at this input.  The session starts with an empty cart and receives one
  batch: \<open>add_to_cart\<close> for the jeans, then \<open>place_order\<close>.  The first call succeeds,
  and the second reports an empty cart: \<open>addToCart\<close> only queued its update, and
  \<open>cartRef.current\<close> is still the cart of the last render.  After the render the cart
  holds the jeans, and a \<open>place_order\<close> call in a later message places the order.
\<close>

theorem place_order_after_add_to_cart_in_one_batch:
  "fst (onToolCall demoCatalog 0
          [call ''a'' ''add_to_cart'' (noArgs\<lparr>arg_productName := Some ''jeans''\<rparr>),
           call ''b'' ''place_order'' noArgs] demoWorld)
     = Inr [\<lparr>r_id = ''a'', r_name = ''add_to_cart'',
             r_result = MessageResult True
               ''Added 1 x Modern Blue Jeans to cart. Total: $50. [SYSTEM HINT: The user bought Jeans. Suggest a T-Shirt.]''\<rparr>,
            \<lparr>r_id = ''b'', r_name = ''place_order'',
             r_result = MessageResult False ''Cart is empty. Cannot place order.''\<rparr>]
   \<and> cart (render (snd (onToolCall demoCatalog 0
          [call ''a'' ''add_to_cart'' (noArgs\<lparr>arg_productName := Some ''jeans''\<rparr>),
           call ''b'' ''place_order'' noArgs] demoWorld)))
     = [\<lparr>product = jeans, quantity = 1\<rparr>]"
proof -
  have d2: "dispatchCall demoCatalog 0 (call ''b'' ''place_order'' noArgs)
              (addToCart jeans 1 demoWorld)
            = Inr (MessageResult False ''Cart is empty. Cannot place order.'',
                   addToCart jeans 1 demoWorld)"
    by (simp add: dispatchCall_def call_def cart_addToCart demoWorld_fields)
  have run: "onToolCall demoCatalog 0
          [call ''a'' ''add_to_cart'' (noArgs\<lparr>arg_productName := Some ''jeans''\<rparr>),
           call ''b'' ''place_order'' noArgs] demoWorld
     = (Inr [\<lparr>r_id = ''a'', r_name = ''add_to_cart'',
             r_result = MessageResult True
               ''Added 1 x Modern Blue Jeans to cart. Total: $50. [SYSTEM HINT: The user bought Jeans. Suggest a T-Shirt.]''\<rparr>,
            \<lparr>r_id = ''b'', r_name = ''place_order'',
             r_result = MessageResult False ''Cart is empty. Cannot place order.''\<rparr>],
        addToCart jeans 1 demoWorld)"
    by (simp add: onToolCall_def dispatch_add_jeans d2) (simp add: call_def)
  have "cart (render (addToCart jeans 1 demoWorld)) = [\<lparr>product = jeans, quantity = 1\<rparr>]"
    by (simp add: cart_render_addToCart render_demoWorld demoWorld_fields
                  addToCart_updater_def)
  with run show ?thesis by simp
qed

text \<open>
  Claim C5 fails at this input.  An \<open>add_to_cart\<close> call with the quantity \<open>-2\<close> is
  reported as a success, and after the render the cart holds the jeans with the
  quantity \<open>-2\<close>: \<open>quantity || 1\<close> replaces only a missing quantity and 0.
\<close>

theorem add_to_cart_with_negative_quantity:
  "fst (onToolCall demoCatalog 0
          [call ''a'' ''add_to_cart'' (noArgs\<lparr>arg_productName := Some ''jeans'',
                                               arg_quantity := Some (- 2)\<rparr>)] demoWorld)
     = Inr [\<lparr>r_id = ''a'', r_name = ''add_to_cart'',
             r_result = MessageResult True
               ''Added -2 x Modern Blue Jeans to cart. Total: $-100. [SYSTEM HINT: The user bought Jeans. Suggest a T-Shirt.]''\<rparr>]
   \<and> cart (render (snd (onToolCall demoCatalog 0
          [call ''a'' ''add_to_cart'' (noArgs\<lparr>arg_productName := Some ''jeans'',
                                               arg_quantity := Some (- 2)\<rparr>)] demoWorld)))
     = [\<lparr>product = jeans, quantity = - 2\<rparr>]"
proof -
  have run: "onToolCall demoCatalog 0
          [call ''a'' ''add_to_cart'' (noArgs\<lparr>arg_productName := Some ''jeans'',
                                               arg_quantity := Some (- 2)\<rparr>)] demoWorld
     = (Inr [\<lparr>r_id = ''a'', r_name = ''add_to_cart'',
             r_result = MessageResult True
               ''Added -2 x Modern Blue Jeans to cart. Total: $-100. [SYSTEM HINT: The user bought Jeans. Suggest a T-Shirt.]''\<rparr>],
        addToCart jeans (- 2) demoWorld)"
    by (simp add: onToolCall_def dispatch_add_jeans_negative) (simp add: call_def)
  have "cart (render (addToCart jeans (- 2) demoWorld)) = [\<lparr>product = jeans, quantity = - 2\<rparr>]"
    by (simp add: cart_render_addToCart render_demoWorld demoWorld_fields
                  addToCart_updater_def)
  with run show ?thesis by simp
qed

text \<open>The guard of \<open>updateCartItemQuantity\<close>: a quantity below 1 changes nothing.\<close>

lemma updateCartItemQuantity_below_one:
  "newQuantity < 1 \<Longrightarrow> updateCartItemQuantity pid newQuantity w = w"
  by (simp add: updateCartItemQuantity_def)


subsection \<open>Missing arguments\<close>

lemma dispatchCall_returns:
  assumes "fc_name fc = ''add_to_cart'' \<longrightarrow> arg_productName (fc_args fc) \<noteq> None"
  shows "\<exists>result w'. dispatchCall PRODUCTS u fc w = Inr (result, w')"
  using assms
  by (auto simp: dispatchCall_def Let_def split: option.splits prod.splits)

lemma dispatchAll_returns:
  assumes "\<forall>fc\<in>set fcs. fc_name fc = ''add_to_cart'' \<longrightarrow> arg_productName (fc_args fc) \<noteq> None"
  shows "\<exists>rs w'. dispatchAll PRODUCTS u fcs acc w = (Inr (acc @ rs), w')
           \<and> map r_id rs = map fc_id fcs \<and> map r_name rs = map fc_name fcs"
  using assms
proof (induction fcs arbitrary: acc w)
  case Nil
  then show ?case by simp
next
  case (Cons fc fcs)
  from Cons.prems have "fc_name fc = ''add_to_cart'' \<longrightarrow> arg_productName (fc_args fc) \<noteq> None"
    by simp
  then obtain result w1 where d: "dispatchCall PRODUCTS u fc w = Inr (result, w1)"
    using dispatchCall_returns by blast
  let ?r = "\<lparr>r_id = fc_id fc, r_name = fc_name fc, r_result = result\<rparr>"
  from Cons.prems have
    "\<forall>fc\<in>set fcs. fc_name fc = ''add_to_cart'' \<longrightarrow> arg_productName (fc_args fc) \<noteq> None"
    by simp
  from Cons.IH [OF this, of "acc @ [?r]" w1]
  obtain rs w' where
    "dispatchAll PRODUCTS u fcs (acc @ [?r]) w1 = (Inr ((acc @ [?r]) @ rs), w')"
    and "map r_id rs = map fc_id fcs" and "map r_name rs = map fc_name fcs"
    by blast
  then have "dispatchAll PRODUCTS u (fc # fcs) acc w = (Inr (acc @ (?r # rs)), w')
      \<and> map r_id (?r # rs) = map fc_id (fc # fcs)
      \<and> map r_name (?r # rs) = map fc_name (fc # fcs)"
    using d by simp
  then show ?case by blast
qed

text \<open>
  Claim C4, as the code has it.  The dispatcher does not check that the required
  arguments of a call are present.  A batch in which every \<open>add_to_cart\<close> call carries
  a \<open>productName\<close> raises nothing and yields one result per call, in the order of the
  calls.  A call with an unknown tool name yields the result \<open>{error: 'Unknown tool'}\<close>
  and changes nothing; an \<open>escalate_issue\<close> call yields a success result with a ticket
  id whether it carries a reason or not.
\<close>

theorem dispatch_yields_one_result_per_call:
  assumes "\<forall>c\<in>set fcs. fc_name c = ''add_to_cart'' \<longrightarrow> arg_productName (fc_args c) \<noteq> None"
  shows "(\<exists>rs w'. onToolCall PRODUCTS u fcs w = (Inr rs, w')
            \<and> map r_id rs = map fc_id fcs \<and> map r_name rs = map fc_name fcs)
     \<and> (fc_name fc \<notin> set [''search_products'', ''get_my_orders'', ''add_to_cart'',
                             ''place_order'', ''escalate_issue'']
          \<longrightarrow> dispatchCall PRODUCTS u fc w = Inr (ErrorResult ''Unknown tool'', w))
     \<and> (fc_name fc = ''escalate_issue''
          \<longrightarrow> (\<exists>ticketId message w'.
                 dispatchCall PRODUCTS u fc w = Inr (TicketResult True ticketId message, w')))"
proof -
  have "\<exists>rs w'. onToolCall PRODUCTS u fcs w = (Inr rs, w')
            \<and> map r_id rs = map fc_id fcs \<and> map r_name rs = map fc_name fcs"
    using dispatchAll_returns [OF assms, of PRODUCTS u "[]" w]
    by (simp add: onToolCall_def)
  moreover have "fc_name fc \<notin> set [''search_products'', ''get_my_orders'', ''add_to_cart'',
                             ''place_order'', ''escalate_issue'']
          \<longrightarrow> dispatchCall PRODUCTS u fc w = Inr (ErrorResult ''Unknown tool'', w)"
    by (simp add: dispatchCall_def)
  moreover have "fc_name fc = ''escalate_issue''
          \<longrightarrow> (\<exists>ticketId message w'.
                 dispatchCall PRODUCTS u fc w = Inr (TicketResult True ticketId message, w'))"
    by (auto simp: dispatchCall_def Let_def split: prod.splits)
  ultimately show ?thesis by blast
qed

theorem dispatch_yields_one_result_per_call_witness:
  "(\<exists>rs w'. onToolCall demoCatalog 0
               [call ''a'' ''search_products'' noArgs,
                call ''b'' ''add_to_cart'' (noArgs\<lparr>arg_productName := Some ''jeans''\<rparr>),
                call ''c'' ''escalate_issue'' noArgs,
                call ''d'' ''refund_order'' noArgs] demoWorld = (Inr rs, w')
       \<and> map r_id rs = [''a'', ''b'', ''c'', ''d''])
   \<and> dispatchCall demoCatalog 0 (call ''d'' ''refund_order'' noArgs) demoWorld
       = Inr (ErrorResult ''Unknown tool'', demoWorld)"
proof -
  let ?fcs = "[call ''a'' ''search_products'' noArgs,
                call ''b'' ''add_to_cart'' (noArgs\<lparr>arg_productName := Some ''jeans''\<rparr>),
                call ''c'' ''escalate_issue'' noArgs,
                call ''d'' ''refund_order'' noArgs]"
  have a: "\<forall>c\<in>set ?fcs. fc_name c = ''add_to_cart'' \<longrightarrow> arg_productName (fc_args c) \<noteq> None"
    by (simp add: call_def noArgs_def)
  have n: "fc_name (call ''d'' ''refund_order'' noArgs)
             \<notin> set [''search_products'', ''get_my_orders'', ''add_to_cart'',
                     ''place_order'', ''escalate_issue'']"
    by (simp add: call_def)
  have m: "map fc_id ?fcs = [''a'', ''b'', ''c'', ''d'']"
    by (simp add: call_def)
  from dispatch_yields_one_result_per_call
         [OF a, of demoCatalog 0 demoWorld "call ''d'' ''refund_order'' noArgs"] n m
  show ?thesis by auto
qed

text \<open>
  Counterexample to claim C4 as stated.  Two calls without their required argument,
  each alone in a batch for the initial
  session: \<open>add_to_cart\<close> without \<open>productName\<close> raises a \<open>TypeError\<close>, so the handler
  ends without a result for the model; \<open>escalate_issue\<close> without \<open>reason\<close> is reported
  as a success.
\<close>

theorem calls_without_required_argument:
  "fst (onToolCall demoCatalog 0 [call ''a'' ''add_to_cart'' noArgs] demoWorld) = Inl TypeError
   \<and> fst (onToolCall demoCatalog 0 [call ''b'' ''escalate_issue'' noArgs] demoWorld)
     = Inr [\<lparr>r_id = ''b'', r_name = ''escalate_issue'',
             r_result = TicketResult True ''TKT-17782''
               ''Escalation successful. Ticket ID: TKT-17782. Inform the user.''\<rparr>]"
proof -
  have c: "demoCatalog \<noteq> []" by (simp add: demoCatalog_def)
  have a: "dispatchCall demoCatalog 0 (call ''a'' ''add_to_cart'' noArgs) demoWorld
             = Inl TypeError"
    using c by (simp add: dispatchCall_def call_def noArgs_def)
  have t: "showNat 17782 = ''17782''" by (simp add: showNat.simps)
  have "createEscalationTicket (c_id (heap demoWorld 0)) None demoWorld
          = (''TKT-17782'', demoWorld\<lparr>drawn := Suc 0\<rparr>)"
    by (simp add: createEscalationTicket_def render_demoWorld draw_def demoWorld_fields t)
  then have b: "dispatchCall demoCatalog 0 (call ''b'' ''escalate_issue'' noArgs) demoWorld
             = Inr (TicketResult True ''TKT-17782''
                      ''Escalation successful. Ticket ID: TKT-17782. Inform the user.'',
                    demoWorld\<lparr>drawn := Suc 0\<rparr>)"
    by (simp add: dispatchCall_def call_def noArgs_def)
  from a b show ?thesis
    by (simp add: onToolCall_def) (simp add: call_def)
qed

section \<open>Audio playback\<close>

lemma onServerContent_fragment:
  "onServerContent (Some now) (fragment d) s
     = s\<lparr>sources := sources s @ [\<lparr>src_id = created s,
                                     startedAt = max (nextStartTime s) now,
                                     bufferDuration = d\<rparr>],
         created := Suc (created s),
         nextStartTime := max (nextStartTime s) now + d\<rparr>"
  by (simp add: onServerContent_def fragment_def scheduleFragment_def Let_def)

lemma onServerContent_interrupted:
  assumes "interrupted m"
  shows "sources (onServerContent ctx m s) = []"
    and "nextStartTime (onServerContent ctx m s) = 0"
    and "set (sources s) \<subseteq> set (stopped (onServerContent ctx m s))"
  using assms
  by (auto simp: onServerContent_def onInterrupted_def scheduleFragment_def Let_def
           split: inline_audio.splits option.splits)

text \<open>
  Claim C9.  A message is handled as one step, with the reading \<open>now\<close> of the playback
  clock, which is not negative.  When the message carries the interruption flag, the
  set of tracked sources is empty afterwards, every source that was tracked has been
  stopped, and the cursor is 0; a fragment of duration \<open>d\<close> that arrives next at the
  time \<open>now\<close> is started at \<open>now\<close>, and the cursor becomes \<open>now + d\<close>.  In every
  state a fragment is started at the later of the cursor and the clock, and the cursor
  becomes that start time plus the duration of the fragment.
\<close>

theorem interruption_resets_playback:
  assumes "interrupted m" and "0 \<le> now"
  shows "sources (onServerContent ctx m s) = []
     \<and> set (sources s) \<subseteq> set (stopped (onServerContent ctx m s))
     \<and> nextStartTime (onServerContent ctx m s) = 0
     \<and> sources (onServerContent (Some now) (fragment d) (onServerContent ctx m s))
         = [\<lparr>src_id = created (onServerContent ctx m s), startedAt = now,
             bufferDuration = d\<rparr>]
     \<and> nextStartTime (onServerContent (Some now) (fragment d) (onServerContent ctx m s))
         = now + d
     \<and> sources (onServerContent (Some now) (fragment d) s)
         = sources s @ [\<lparr>src_id = created s, startedAt = max (nextStartTime s) now,
                         bufferDuration = d\<rparr>]
     \<and> nextStartTime (onServerContent (Some now) (fragment d) s)
         = max (nextStartTime s) now + d"
  using onServerContent_interrupted [OF assms(1)] assms(2)
  by (simp add: onServerContent_fragment)

lemma twoScheduled_eq:
  "twoScheduled
     = \<lparr>nextStartTime = 2,
        sources = [\<lparr>src_id = 0, startedAt = 1, bufferDuration = 1 / 2\<rparr>,
                   \<lparr>src_id = 1, startedAt = 3 / 2, bufferDuration = 1 / 2\<rparr>],
        stopped = [], created = 2\<rparr>"
  by (simp add: twoScheduled_def onServerContent_fragment initialPlayback_def)

theorem interruption_resets_playback_witness:
  "sources (onServerContent (Some (5 / 4)) interruption twoScheduled) = []
   \<and> stopped (onServerContent (Some (5 / 4)) interruption twoScheduled)
       = [\<lparr>src_id = 0, startedAt = 1, bufferDuration = 1 / 2\<rparr>,
          \<lparr>src_id = 1, startedAt = 3 / 2, bufferDuration = 1 / 2\<rparr>]
   \<and> sources (onServerContent (Some (13 / 10)) (fragment (1 / 4))
                (onServerContent (Some (5 / 4)) interruption twoScheduled))
       = [\<lparr>src_id = 2, startedAt = 13 / 10, bufferDuration = 1 / 4\<rparr>]
   \<and> nextStartTime (onServerContent (Some (13 / 10)) (fragment (1 / 4))
                (onServerContent (Some (5 / 4)) interruption twoScheduled))
       = 31 / 20"
proof -
  have a1: "interrupted interruption" by (simp add: interruption_def)
  have a2: "(0::real) \<le> 13 / 10" by simp
  have st: "stopped (onServerContent (Some (5 / 4)) interruption twoScheduled)
       = [\<lparr>src_id = 0, startedAt = 1, bufferDuration = 1 / 2\<rparr>,
          \<lparr>src_id = 1, startedAt = 3 / 2, bufferDuration = 1 / 2\<rparr>]"
    by (simp add: onServerContent_def interruption_def onInterrupted_def twoScheduled_eq)
  have cr: "created (onServerContent (Some (5 / 4)) interruption twoScheduled) = 2"
    by (simp add: onServerContent_def interruption_def onInterrupted_def twoScheduled_eq)
  from interruption_resets_playback
         [OF a1 a2, of "Some (5 / 4)" twoScheduled "1 / 4"] st cr
  show ?thesis by simp
qed

section \<open>The store stays well formed\<close>

text \<open>
  The hypothesis \<open>wellFormed\<close> of the theorems above holds in the initial state and is
  kept by every handler of \<open>App\<close> followed by the render.
\<close>

lemma wellFormed_initialWorld: "wellFormed (initialWorld PRODUCTS seed rnd day) 0"
  by (simp add: wellFormed_def initialWorld_def)

lemma wellFormed_cart_handlers:
  assumes "pending w = []" and "wellFormed w u"
  shows "wellFormed (render (addToCart p q w)) u"
    and "wellFormed (render (updateCartItemQuantity pid n w)) u"
    and "wellFormed (render (removeFromCart pid w)) u"
    and "wellFormed (render (clearCart w)) u"
proof -
  show "wellFormed (render (addToCart p q w)) u"
    using assms(2)
    by (simp add: addToCart_def render_enqueue render_no_pending [OF assms(1)] wellFormed_def)
  show "wellFormed (render (updateCartItemQuantity pid n w)) u"
    using assms(2)
    by (simp add: updateCartItemQuantity_def render_enqueue render_no_pending [OF assms(1)]
                  wellFormed_def)
  show "wellFormed (render (removeFromCart pid w)) u"
    using assms(2)
    by (simp add: removeFromCart_def render_enqueue render_no_pending [OF assms(1)]
                  wellFormed_def)
  show "wellFormed (render (clearCart w)) u"
    using assms(2)
    by (simp add: clearCart_def render_enqueue render_no_pending [OF assms(1)] wellFormed_def)
qed

lemma wellFormed_switchUser:
  assumes "pending w = []" and "wellFormed w u"
  shows "wellFormed (render (switchUser v w)) u"
proof (cases "find (\<lambda>c. c_id (heap w c) = v) (CUSTOMERS w)")
  case None
  with assms show ?thesis
    by (simp add: switchUser_def render_no_pending)
next
  case (Some user)
  then have "user \<in> set (CUSTOMERS w)"
    by (auto simp: find_Some_iff)
  with assms(2) have "wellFormed (w\<lparr>currentUser := user\<rparr>) u"
    by (auto simp: wellFormed_def list_all_iff list_ex_iff)
  with Some assms(1) show ?thesis
    by (simp add: switchUser_def render_enqueue render_no_pending)
qed

lemma wellFormed_handleCheckout:
  assumes "pending w = []" and "wellFormed w u"
  shows "wellFormed (render (snd (handleCheckout w))) u"
proof -
  from assms(2) obtain c where
    found: "find (\<lambda>c. c_id (heap w c) = c_id (heap w (currentUser w))) (CUSTOMERS w) = Some c"
    and fresh: "nextRef w \<notin> set (CUSTOMERS w)" and cur: "currentUser w \<noteq> nextRef w"
    by (rule wellFormed_found)
  from found have cin: "c \<in> set (CUSTOMERS w)"
    and cid: "c_id (heap w c) = c_id (heap w (currentUser w))"
    by (auto simp: find_Some_iff)
  from cin fresh have ca: "c \<noteq> nextRef w" by auto
  from assms(2) have all: "\<forall>x\<in>set (CUSTOMERS w). x < nextRef w" and u: "u < nextRef w"
    by (auto simp: wellFormed_def list_all_iff)
  have r: "render (snd (handleCheckout w))
             = w\<lparr>heap := ((heap w)
                  (nextRef w := (heap w (currentUser w))
                                  \<lparr>orders := order_spec w # orders (heap w (currentUser w))\<rparr>))
                  (c := (heap w c)\<lparr>orders := order_spec w # orders (heap w c)\<rparr>),
               nextRef := Suc (nextRef w), pending := [], drawn := Suc (drawn w),
               currentUser := nextRef w, cart := []\<rparr>"
    by (simp add: handleCheckout_state [OF fresh cur found] render_def assms(1))
  show ?thesis
    unfolding r using all u cin cid ca
    by (auto simp: wellFormed_def list_all_iff list_ex_iff less_Suc_eq)
qed

section \<open>Two orders from one cart\<close>

text \<open>
  The cart that \<open>place_order\<close> checks and that \<open>handleCheckout\<close> reads is the cart of
  the last render, and \<open>setCart([])\<close> is applied by the next one.  So two \<open>place_order\<close>
  calls in one batch both succeed, and the customer of \<open>CUSTOMERS\<close> gets two orders with
  the items of the one cart.
\<close>

lemma wellFormed_after_handleCheckout:
  assumes "wellFormed w u"
  shows "wellFormed (snd (handleCheckout w)) u"
proof -
  from assms obtain c where
    found: "find (\<lambda>c. c_id (heap w c) = c_id (heap w (currentUser w))) (CUSTOMERS w) = Some c"
    and fresh: "nextRef w \<notin> set (CUSTOMERS w)" and cur: "currentUser w \<noteq> nextRef w"
    by (rule wellFormed_found)
  from found have cin: "c \<in> set (CUSTOMERS w)"
    and cid: "c_id (heap w c) = c_id (heap w (currentUser w))"
    by (auto simp: find_Some_iff)
  from cin fresh have ca: "c \<noteq> nextRef w" by auto
  from assms have all: "\<forall>x\<in>set (CUSTOMERS w). x < nextRef w" and u: "u < nextRef w"
    and cu: "currentUser w < nextRef w"
    by (auto simp: wellFormed_def list_all_iff)
  let ?w1 = "snd (handleCheckout w)"
  note st = handleCheckout_state [OF fresh cur found]
  have ids: "c_id (heap ?w1 x) = c_id (heap w x)" if "x \<noteq> nextRef w" for x
    using that by (simp add: st)
  have f: "nextRef ?w1 = Suc (nextRef w)" "CUSTOMERS ?w1 = CUSTOMERS w"
    "currentUser ?w1 = currentUser w"
    by (simp_all add: st)
  have "c_id (heap ?w1 c) = c_id (heap ?w1 (currentUser w))"
    using ids [OF ca] ids [OF cur] cid by simp
  with cin have "\<exists>x\<in>set (CUSTOMERS w). c_id (heap ?w1 x) = c_id (heap ?w1 (currentUser w))"
    by blast
  moreover from all have "\<forall>x\<in>set (CUSTOMERS w). x < Suc (nextRef w)"
    by (simp add: less_Suc_eq)
  ultimately show ?thesis
    using u cu by (simp add: wellFormed_def list_all_iff list_ex_iff f less_Suc_eq)
qed

lemma two_place_orders_in_one_batch:
  assumes "cart w \<noteq> []" and "wellFormed w (currentUser w)"
    and "fc_name fc1 = ''place_order''" and "fc_name fc2 = ''place_order''"
  shows "\<exists>w1 w2 r1 r2.
           onToolCall PRODUCTS u [fc1, fc2] w = (Inr [r1, r2], w2)
         \<and> w1 = snd (handleCheckout w)
         \<and> r_result r1 = OrderResult True (o_id (order_spec w))
              (''Order placed successfully. Order ID: '' @ o_id (order_spec w)
               @ ''. You MUST tell the user this ID.'')
         \<and> r_result r2 = OrderResult True (o_id (order_spec w1))
              (''Order placed successfully. Order ID: '' @ o_id (order_spec w1)
               @ ''. You MUST tell the user this ID.'')
         \<and> o_items (order_spec w1) = o_items (order_spec w)
         \<and> getCustomerOrders w2 (c_id (heap w (currentUser w)))
             = order_spec w1 # order_spec w
               # getCustomerOrders w (c_id (heap w (currentUser w)))"
proof -
  let ?w1 = "snd (handleCheckout w)"
  let ?w2 = "snd (handleCheckout ?w1)"
  obtain c where
    found: "find (\<lambda>c. c_id (heap w c) = c_id (heap w (currentUser w))) (CUSTOMERS w) = Some c"
    and fresh: "nextRef w \<notin> set (CUSTOMERS w)" and cur: "currentUser w \<noteq> nextRef w"
    using assms(2) by (rule wellFormed_found)
  note st = handleCheckout_state [OF fresh cur found]
  have c1: "cart ?w1 = cart w" and u1: "currentUser ?w1 = currentUser w"
    by (simp_all add: st)
  have wf1: "wellFormed ?w1 (currentUser w)"
    using assms(2) by (rule wellFormed_after_handleCheckout)
  then have wf1': "wellFormed ?w1 (currentUser ?w1)" by (simp add: u1)
  have id1: "c_id (heap ?w1 (currentUser ?w1)) = c_id (heap w (currentUser w))"
    using handleCheckout_keeps_id [OF assms(2)] by (simp add: u1)
  have g1: "getCustomerOrders ?w1 (c_id (heap w (currentUser w)))
              = order_spec w # getCustomerOrders w (c_id (heap w (currentUser w)))"
    using assms(2) by (rule getCustomerOrders_handleCheckout)
  have g2: "getCustomerOrders ?w2 (c_id (heap w (currentUser w)))
              = order_spec ?w1 # order_spec w
                # getCustomerOrders w (c_id (heap w (currentUser w)))"
    using getCustomerOrders_handleCheckout [OF wf1'] g1 by (simp add: id1)
  have items: "o_items (order_spec ?w1) = o_items (order_spec w)"
    by (simp add: order_spec_def c1)
  have i1: "fst (handleCheckout w) = o_id (order_spec w)"
    by (simp add: handleCheckout_orderId order_spec_def)
  have i2: "fst (handleCheckout ?w1) = o_id (order_spec ?w1)"
    by (simp add: handleCheckout_orderId order_spec_def)
  have d1: "dispatchCall PRODUCTS u fc1 w
              = Inr (OrderResult True (o_id (order_spec w))
                       (''Order placed successfully. Order ID: '' @ o_id (order_spec w)
                        @ ''. You MUST tell the user this ID.''), ?w1)"
    using assms(1,3) by (simp add: dispatchCall_def case_prod_beta i1)
  have d2: "dispatchCall PRODUCTS u fc2 ?w1
              = Inr (OrderResult True (o_id (order_spec ?w1))
                       (''Order placed successfully. Order ID: '' @ o_id (order_spec ?w1)
                        @ ''. You MUST tell the user this ID.''), ?w2)"
    using assms(1,4) by (simp add: dispatchCall_def case_prod_beta i2 c1)
  have "onToolCall PRODUCTS u [fc1, fc2] w
          = (Inr [\<lparr>r_id = fc_id fc1, r_name = fc_name fc1,
                   r_result = OrderResult True (o_id (order_spec w))
                     (''Order placed successfully. Order ID: '' @ o_id (order_spec w)
                      @ ''. You MUST tell the user this ID.'')\<rparr>,
                  \<lparr>r_id = fc_id fc2, r_name = fc_name fc2,
                   r_result = OrderResult True (o_id (order_spec ?w1))
                     (''Order placed successfully. Order ID: '' @ o_id (order_spec ?w1)
                      @ ''. You MUST tell the user this ID.'')\<rparr>], ?w2)"
    by (simp add: onToolCall_def d1 d2)
  with g2 items show ?thesis
    by simp
qed

section \<open>Checkout, the shared customer list and the render\<close>

lemma foldl_applyUpdate_heap:
  "heap (foldl (\<lambda>s u. applyUpdate u s) w us) = heap w"
proof (induction us arbitrary: w)
  case Nil
  then show ?case by simp
next
  case (Cons u us)
  then show ?case by (cases u) simp_all
qed

lemma render_after_checkout_updates:
  assumes "pending w1 = ps @ [SetCurrentUser a, SetCartTo []]"
  shows "cart (render w1) = []" and "currentUser (render w1) = a"
    and "heap (render w1) = heap w1"
  by (simp_all add: render_def assms foldl_applyUpdate_heap)

text \<open>
  Claim C2, as the code has it.  Let the store be well formed and the cart of the last
  render non-empty; other updates may be pending.  \<open>handleCheckout\<close> returns the id of
  the order of the specification, built from the cart of the last render, which is the
  whole cart before the checkout when no update is pending.  During the call that order
  is put in front of the history of the active customer in \<open>CUSTOMERS\<close>; the cart and
  the active customer of the current render stay as they are, and the two updates are
  queued behind the pending ones.  The next render applies them together: then the
  history of the active customer is the order in front of the old history, and the cart
  is empty.  The total of the order is the sum of price times quantity over that cart,
  and it is the total that \<open>calcTotal\<close> computes from the catalog when the products in
  the cart are catalog entries.
\<close>

theorem checkout_stores_order_and_render_clears_cart:
  assumes "cart w \<noteq> []" and "wellFormed w (currentUser w)"
  shows "fst (handleCheckout w) = o_id (order_spec w)
     \<and> getCustomerOrders (snd (handleCheckout w)) (c_id (heap w (currentUser w)))
         = order_spec w # getCustomerOrders w (c_id (heap w (currentUser w)))
     \<and> cart (snd (handleCheckout w)) = cart w
     \<and> currentUser (snd (handleCheckout w)) = currentUser w
     \<and> pending (snd (handleCheckout w))
         = pending w @ [SetCurrentUser (nextRef w), SetCartTo []]
     \<and> orders (heap (render (snd (handleCheckout w)))
                 (currentUser (render (snd (handleCheckout w)))))
         = order_spec w # orders (heap w (currentUser w))
     \<and> cart (render (snd (handleCheckout w))) = []
     \<and> o_total (order_spec w)
         = sum_list (map (\<lambda>item. p_price (product item) * quantity item) (cart w))
     \<and> ((\<forall>item\<in>set (cart w).
            find (\<lambda>p. p_id p = p_id (product item)) PRODUCTS = Some (product item))
          \<longrightarrow> o_total (order_spec w) = calcTotal PRODUCTS (o_items (order_spec w)))"
proof -
  from assms(2) obtain c where
    found: "find (\<lambda>c. c_id (heap w c) = c_id (heap w (currentUser w))) (CUSTOMERS w) = Some c"
    and fresh: "nextRef w \<notin> set (CUSTOMERS w)" and cur: "currentUser w \<noteq> nextRef w"
    by (rule wellFormed_found)
  from found have "c \<in> set (CUSTOMERS w)" by (auto simp: find_Some_iff)
  with fresh have ca: "c \<noteq> nextRef w" by auto
  note st = handleCheckout_state [OF fresh cur found]
  let ?w1 = "snd (handleCheckout w)"
  have p: "pending ?w1 = pending w @ [SetCurrentUser (nextRef w), SetCartTo []]"
    by (simp add: st)
  note r = render_after_checkout_updates [OF p]
  have h: "orders (heap ?w1 (nextRef w)) = order_spec w # orders (heap w (currentUser w))"
    using ca by (simp add: st)
  have "fst (handleCheckout w) = o_id (order_spec w)"
    by (simp add: handleCheckout_orderId order_spec_def)
  moreover have "getCustomerOrders ?w1 (c_id (heap w (currentUser w)))
         = order_spec w # getCustomerOrders w (c_id (heap w (currentUser w)))"
    using assms(2) by (rule getCustomerOrders_handleCheckout)
  moreover have "cart ?w1 = cart w" "currentUser ?w1 = currentUser w"
    by (simp_all add: st)
  moreover have "orders (heap (render ?w1) (currentUser (render ?w1)))
         = order_spec w # orders (heap w (currentUser w))"
    by (simp add: r h)
  moreover have "cart (render ?w1) = []"
    by (rule r)
  moreover have "o_total (order_spec w)
         = sum_list (map (\<lambda>item. p_price (product item) * quantity item) (cart w))"
    by (simp add: order_spec_def)
  moreover have "(\<forall>item\<in>set (cart w).
            find (\<lambda>p. p_id p = p_id (product item)) PRODUCTS = Some (product item))
          \<longrightarrow> o_total (order_spec w) = calcTotal PRODUCTS (o_items (order_spec w))"
    by (simp add: order_spec_def calcTotal_of_cart)
  ultimately show ?thesis
    using p by simp
qed

lemma order_spec_shoppingWorld:
  "order_spec shoppingWorld
     = \<lparr>o_id = ''ORD-7782'', o_date = ''2026-01-15'', o_status = Processing,
        o_items = [\<lparr>productId = ''P1000'', oi_quantity = 2\<rparr>,
                   \<lparr>productId = ''P1001'', oi_quantity = 1\<rparr>],
        o_total = 90\<rparr>"
  by (simp add: order_spec_def shoppingWorld_eq demoWorld_fields showNat_7782
                tshirt_def jeans_def)

theorem checkout_stores_order_and_render_clears_cart_witness:
  "fst (handleCheckout shoppingWorld) = ''ORD-7782''
   \<and> orders (heap (render (snd (handleCheckout shoppingWorld)))
               (currentUser (render (snd (handleCheckout shoppingWorld)))))
       = [\<lparr>o_id = ''ORD-7782'', o_date = ''2026-01-15'', o_status = Processing,
           o_items = [\<lparr>productId = ''P1000'', oi_quantity = 2\<rparr>,
                      \<lparr>productId = ''P1001'', oi_quantity = 1\<rparr>],
           o_total = 90\<rparr>]
   \<and> cart (render (snd (handleCheckout shoppingWorld))) = []
   \<and> calcTotal demoCatalog [\<lparr>productId = ''P1000'', oi_quantity = 2\<rparr>,
                             \<lparr>productId = ''P1001'', oi_quantity = 1\<rparr>] = 90"
proof -
  have a1: "cart shoppingWorld \<noteq> []" by (simp add: shoppingWorld_eq)
  have a3: "wellFormed shoppingWorld (currentUser shoppingWorld)"
    using wellFormed_shoppingWorld by (simp add: shoppingWorld_eq demoWorld_fields)
  have old: "orders (heap shoppingWorld (currentUser shoppingWorld)) = []"
    by (simp add: shoppingWorld_eq demoWorld_fields demoWorld_orders)
  have cat: "\<forall>item\<in>set (cart shoppingWorld).
               find (\<lambda>p. p_id p = p_id (product item)) demoCatalog = Some (product item)"
    by (simp add: shoppingWorld_eq demoCatalog_def tshirt_def jeans_def jacket_def)
  from checkout_stores_order_and_render_clears_cart [OF a1 a3, of demoCatalog] cat old
  show ?thesis by (simp add: order_spec_shoppingWorld)
qed

text \<open>
  Counterexample to claim C2 as stated.  The administrator has two T-shirts and one
  pair of jeans in the cart and no orders.  Right after \<open>handleCheckout\<close> returns, the
  order is in the history that \<open>getCustomerOrders\<close> reads, and the cart still holds
  both items: the order exists and the cart is not cleared.
\<close>

theorem checkout_order_exists_before_cart_is_cleared:
  "getCustomerOrders shoppingWorld ''ADMIN'' = []
   \<and> getCustomerOrders (snd (handleCheckout shoppingWorld)) ''ADMIN''
       = [\<lparr>o_id = ''ORD-7782'', o_date = ''2026-01-15'', o_status = Processing,
           o_items = [\<lparr>productId = ''P1000'', oi_quantity = 2\<rparr>,
                      \<lparr>productId = ''P1001'', oi_quantity = 1\<rparr>],
           o_total = 90\<rparr>]
   \<and> cart (snd (handleCheckout shoppingWorld))
       = [\<lparr>product = tshirt, quantity = 2\<rparr>, \<lparr>product = jeans, quantity = 1\<rparr>]"
proof -
  have idc: "c_id (heap shoppingWorld (currentUser shoppingWorld)) = ''ADMIN''"
    by (simp add: shoppingWorld_eq demoWorld_fields demoWorld_ids)
  have g0: "getCustomerOrders shoppingWorld ''ADMIN'' = []"
    by (simp add: getCustomerOrders_def shoppingWorld_eq demoWorld_fields demoWorld_ids
                  demoWorld_orders)
  have g: "getCustomerOrders (snd (handleCheckout shoppingWorld)) ''ADMIN''
             = [order_spec shoppingWorld]"
    using getCustomerOrders_handleCheckout [OF wellFormed_shoppingWorld] g0 idc by simp
  have wf: "wellFormed shoppingWorld (currentUser shoppingWorld)"
    using wellFormed_shoppingWorld by (simp add: shoppingWorld_eq demoWorld_fields)
  obtain c where
    found: "find (\<lambda>c. c_id (heap shoppingWorld c)
                      = c_id (heap shoppingWorld (currentUser shoppingWorld)))
              (CUSTOMERS shoppingWorld) = Some c"
    and fresh: "nextRef shoppingWorld \<notin> set (CUSTOMERS shoppingWorld)"
    and cur: "currentUser shoppingWorld \<noteq> nextRef shoppingWorld"
    using wf by (rule wellFormed_found)
  have c: "cart (snd (handleCheckout shoppingWorld)) = cart shoppingWorld"
    by (simp add: handleCheckout_state [OF fresh cur found])
  have c0: "cart shoppingWorld
              = [\<lparr>product = tshirt, quantity = 2\<rparr>, \<lparr>product = jeans, quantity = 1\<rparr>]"
    by (simp add: shoppingWorld_eq)
  from g0 g c c0 show ?thesis
    by (simp add: order_spec_shoppingWorld)
qed

text \<open>
  The cart that \<open>handleCheckout\<close> reads is the cart of the last render also when an
  \<open>add_to_cart\<close> call of the same batch has succeeded: with two T-shirts in the rendered
  cart, the batch of \<open>add_to_cart\<close> for the jeans and \<open>place_order\<close> reports two
  successes, the order holds the T-shirts only, and the render empties the cart.
\<close>

lemma place_order_leaves_out_add_of_same_batch:
  "fst (onToolCall demoCatalog 0
          [call ''a'' ''add_to_cart'' (noArgs\<lparr>arg_productName := Some ''jeans''\<rparr>),
           call ''b'' ''place_order'' noArgs] (render (addToCart tshirt 2 demoWorld)))
     = Inr [\<lparr>r_id = ''a'', r_name = ''add_to_cart'',
             r_result = MessageResult True
               ''Added 1 x Modern Blue Jeans to cart. Total: $50. [SYSTEM HINT: The user bought Jeans. Suggest a T-Shirt.]''\<rparr>,
            \<lparr>r_id = ''b'', r_name = ''place_order'',
             r_result = OrderResult True ''ORD-7782''
               ''Order placed successfully. Order ID: ORD-7782. You MUST tell the user this ID.''\<rparr>]
   \<and> getCustomerOrders (snd (onToolCall demoCatalog 0
          [call ''a'' ''add_to_cart'' (noArgs\<lparr>arg_productName := Some ''jeans''\<rparr>),
           call ''b'' ''place_order'' noArgs] (render (addToCart tshirt 2 demoWorld)))) ''ADMIN''
     = [\<lparr>o_id = ''ORD-7782'', o_date = ''2026-01-15'', o_status = Processing,
         o_items = [\<lparr>productId = ''P1000'', oi_quantity = 2\<rparr>], o_total = 40\<rparr>]
   \<and> cart (render (snd (onToolCall demoCatalog 0
          [call ''a'' ''add_to_cart'' (noArgs\<lparr>arg_productName := Some ''jeans''\<rparr>),
           call ''b'' ''place_order'' noArgs] (render (addToCart tshirt 2 demoWorld)))))
     = []"
proof -
  let ?w0 = "render (addToCart tshirt 2 demoWorld)"
  let ?w1 = "addToCart jeans 1 ?w0"
  let ?w2 = "snd (handleCheckout ?w1)"
  have w0: "?w0 = demoWorld\<lparr>cart := [\<lparr>product = tshirt, quantity = 2\<rparr>],
                             isCartOpen := True\<rparr>"
    by (simp add: render_def addToCart_def enqueue_def demoWorld_fields addToCart_updater_def)
  have w1: "?w1 = demoWorld\<lparr>cart := [\<lparr>product = tshirt, quantity = 2\<rparr>],
                             isCartOpen := True,
                             pending := [SetCartBy (addToCart_updater jeans 1),
                                         SetIsCartOpen True]\<rparr>"
    unfolding w0 by (simp add: addToCart_def enqueue_def demoWorld_fields)
  have wf: "wellFormed ?w1 0"
    unfolding w1 by (simp add: wellFormed_def demoWorld_fields)
  have cu: "currentUser ?w1 = 0" unfolding w1 by (simp add: demoWorld_fields)
  have idc: "c_id (heap ?w1 (currentUser ?w1)) = ''ADMIN''"
    unfolding w1 by (simp add: demoWorld_fields demoWorld_ids)
  have g0: "getCustomerOrders ?w1 ''ADMIN'' = []"
    unfolding w1
    by (simp add: getCustomerOrders_def demoWorld_fields demoWorld_ids demoWorld_orders)
  have o: "order_spec ?w1
             = \<lparr>o_id = ''ORD-7782'', o_date = ''2026-01-15'', o_status = Processing,
                o_items = [\<lparr>productId = ''P1000'', oi_quantity = 2\<rparr>], o_total = 40\<rparr>"
    unfolding w1 by (simp add: order_spec_def demoWorld_fields showNat_7782 tshirt_def)
  have g: "getCustomerOrders ?w2 ''ADMIN'' = [order_spec ?w1]"
    using getCustomerOrders_handleCheckout [OF wf] g0 idc by (simp add: cu)
  have i: "fst (handleCheckout ?w1) = ''ORD-7782''"
    unfolding handleCheckout_orderId w1 by (simp add: demoWorld_fields showNat_7782)
  have wf': "wellFormed ?w1 (currentUser ?w1)" using wf by (simp add: cu)
  obtain c where
    found: "find (\<lambda>c. c_id (heap ?w1 c) = c_id (heap ?w1 (currentUser ?w1)))
              (CUSTOMERS ?w1) = Some c"
    and fresh: "nextRef ?w1 \<notin> set (CUSTOMERS ?w1)"
    and cur: "currentUser ?w1 \<noteq> nextRef ?w1"
    using wf' by (rule wellFormed_found)
  have p: "pending ?w2 = pending ?w1 @ [SetCurrentUser (nextRef ?w1), SetCartTo []]"
    by (simp add: handleCheckout_state [OF fresh cur found])
  have c2: "cart (render ?w2) = []"
    by (rule render_after_checkout_updates [OF p])
  have ne: "cart ?w1 \<noteq> []" unfolding w1 by simp
  have d2: "dispatchCall demoCatalog 0 (call ''b'' ''place_order'' noArgs) ?w1
              = Inr (OrderResult True ''ORD-7782''
                       ''Order placed successfully. Order ID: ORD-7782. You MUST tell the user this ID.'',
                     ?w2)"
    using ne by (simp add: dispatchCall_def call_def case_prod_beta i)
  have run: "onToolCall demoCatalog 0
          [call ''a'' ''add_to_cart'' (noArgs\<lparr>arg_productName := Some ''jeans''\<rparr>),
           call ''b'' ''place_order'' noArgs] ?w0
     = (Inr [\<lparr>r_id = ''a'', r_name = ''add_to_cart'',
             r_result = MessageResult True
               ''Added 1 x Modern Blue Jeans to cart. Total: $50. [SYSTEM HINT: The user bought Jeans. Suggest a T-Shirt.]''\<rparr>,
            \<lparr>r_id = ''b'', r_name = ''place_order'',
             r_result = OrderResult True ''ORD-7782''
               ''Order placed successfully. Order ID: ORD-7782. You MUST tell the user this ID.''\<rparr>],
        ?w2)"
    by (simp add: onToolCall_def dispatch_add_jeans d2) (simp add: call_def)
  show ?thesis
    unfolding run using g c2 by (simp add: o)
qed

end
